theory Spec2Isabelle
  imports Complex_Main "HOL-Library.Sublist"
begin

section \<open>Python values\<close>

text \<open>
  A Python \<open>str\<close> is a sequence of Unicode code points, and \<open>len\<close> and slicing count
  code points. A string is therefore a list of code point numbers; \<open>py\<close> embeds an
  ASCII literal of the source.
\<close>

type_synonym pystr = "nat list"

definition py :: "string \<Rightarrow> pystr" where
  "py s = map of_char s"

text \<open>\<open>str(n)\<close> for a number \<open>n \<ge> 0\<close>: its decimal digits.\<close>

fun str_nat :: "nat \<Rightarrow> pystr" where
  "str_nat n = (if n < 10 then [48 + n] else str_nat (n div 10) @ [48 + n mod 10])"

declare str_nat.simps [simp del]

text \<open>\<open>sep.join(parts)\<close>\<close>

fun join :: "pystr \<Rightarrow> pystr list \<Rightarrow> pystr" where
  "join sep [] = []"
| "join sep [x] = x"
| "join sep (x # y # ys) = x @ sep @ join sep (y # ys)"

text \<open>\<open>sub in s\<close> for two strings.\<close>

fun contains :: "pystr \<Rightarrow> pystr \<Rightarrow> bool" where
  "contains s [] = True"
| "contains [] (c # sub) = False"
| "contains (d # s) (c # sub) = (prefix (c # sub) (d # s) \<or> contains s (c # sub))"

text \<open>
  \<open>s.strip()\<close> removes the white space at both ends; the code points below are the
  ones Python counts as white space.
\<close>

definition is_space :: "nat \<Rightarrow> bool" where
  "is_space c \<longleftrightarrow>
     (9 \<le> c \<and> c \<le> 13) \<or> (28 \<le> c \<and> c \<le> 32) \<or> c = 133 \<or> c = 160 \<or> c = 5760 \<or>
     (8192 \<le> c \<and> c \<le> 8202) \<or> c = 8232 \<or> c = 8233 \<or> c = 8239 \<or> c = 8287 \<or> c = 12288"

definition strip :: "pystr \<Rightarrow> pystr" where
  "strip s = rev (dropWhile is_space (rev (dropWhile is_space s)))"

text \<open>\<open>s.replace("\n", " ")\<close>\<close>

definition replace_newlines :: "pystr \<Rightarrow> pystr" where
  "replace_newlines s = map (\<lambda>c. if c = 10 then 32 else c) s"

text \<open>\<open>d.get(key, default)\<close> for a dict written as the list of its items.\<close>

definition dict_get :: "('k \<times> 'v) list \<Rightarrow> 'k \<Rightarrow> 'v \<Rightarrow> 'v" where
  "dict_get d k dflt = (case map_of d k of None \<Rightarrow> dflt | Some v \<Rightarrow> v)"

text \<open>
  An exception that is an instance of \<open>Exception\<close>: its class, as far as the
  \<open>except\<close> clauses of the source tell classes apart, and \<open>str(e)\<close>. A call that
  may raise returns a value of \<open>py_error + 'a\<close>, and \<open>bind_err\<close> runs the next
  statement unless the one before raised.
\<close>

datatype exc_class =
  RequestException | PdfReadError | IndexError | KeyError | ValidationError | OtherException

datatype py_error = Raised exc_class pystr

fun exc_str :: "py_error \<Rightarrow> pystr" where
  "exc_str (Raised c msg) = msg"

fun exc_cls :: "py_error \<Rightarrow> exc_class" where
  "exc_cls (Raised c msg) = c"

definition bind_err :: "py_error + 'a \<Rightarrow> ('a \<Rightarrow> py_error + 'b) \<Rightarrow> py_error + 'b" where
  "bind_err r f = (case r of Inl e \<Rightarrow> Inl e | Inr v \<Rightarrow> f v)"

text \<open>
  \<open>try: body except Exception as e: handler\<close>, for a body whose last statement
  returns.
\<close>

definition try_except :: "py_error + 'a \<Rightarrow> (py_error \<Rightarrow> py_error + 'a) \<Rightarrow> py_error + 'a" where
  "try_except body handler = (case body of Inl e \<Rightarrow> handler e | Inr v \<Rightarrow> Inr v)"

section \<open>backend/config.py\<close>

text \<open>
  The fields of \<open>Settings\<close>. The sampling temperature is carried as the decimal value
  of the configured number; nothing computes with it.
\<close>

record Settings =
  groq_api_key :: pystr
  google_api_key :: pystr
  llm_model :: pystr
  llm_temperature :: real
  max_iterations :: int
  api_title :: pystr
  api_version :: pystr

text \<open>
  \<open>Settings()\<close> reads the process environment and the file \<open>.env\<close>. What it finds
  there for a field is nothing, a text that does not parse as the field's type, or a
  value.
\<close>

datatype 'a env_value = Unset | Malformed | Value 'a

record Environment =
  env_groq_api_key :: "pystr env_value"
  env_google_api_key :: "pystr env_value"
  env_llm_model :: "pystr env_value"
  env_llm_temperature :: "real env_value"
  env_max_iterations :: "int env_value"
  env_api_title :: "pystr env_value"
  env_api_version :: "pystr env_value"

text \<open>
  A field without a default is required; a field with a default takes it when the
  environment says nothing. The library's validation message is abbreviated.
\<close>

fun required :: "'a env_value \<Rightarrow> py_error + 'a" where
  "required (Value v) = Inr v"
| "required Unset = Inl (Raised ValidationError (py ''validation error for Settings''))"
| "required Malformed = Inl (Raised ValidationError (py ''validation error for Settings''))"

fun with_default :: "'a env_value \<Rightarrow> 'a \<Rightarrow> py_error + 'a" where
  "with_default (Value v) d = Inr v"
| "with_default Unset d = Inr d"
| "with_default Malformed d = Inl (Raised ValidationError (py ''validation error for Settings''))"

definition Settings_init :: "Environment \<Rightarrow> py_error + Settings" where
  "Settings_init env =
     bind_err (required (env_groq_api_key env)) (\<lambda>gk.
     bind_err (required (env_google_api_key env)) (\<lambda>ggk.
     bind_err (with_default (env_llm_model env) (py ''gemini-2.5-flash'')) (\<lambda>m.
     bind_err (with_default (env_llm_temperature env) (7 / 10)) (\<lambda>t.
     bind_err (with_default (env_max_iterations env) 10) (\<lambda>mi.
     bind_err (with_default (env_api_title env) (py ''AI Research Assistant'')) (\<lambda>ti.
     bind_err (with_default (env_api_version env) (py ''1.0.0'')) (\<lambda>ve.
       Inr \<lparr>groq_api_key = gk, google_api_key = ggk, llm_model = m, llm_temperature = t,
            max_iterations = mi, api_title = ti, api_version = ve\<rparr>)))))))"

text \<open>
  \<open>get_settings\<close> under \<open>lru_cache\<close>: the function has no argument, so the cache holds
  at most one entry. A call that finds the entry returns it; a call that does not runs
  \<open>Settings()\<close> and stores the object, and an exception of \<open>Settings()\<close> is not
  stored. \<open>constructed\<close> counts the objects \<open>Settings()\<close> has returned in the
  process; it is bookkeeping of the model, not data of the program. The environment is
  an argument of each call, since it may differ from one call to the next.
\<close>

record Process =
  cached :: "Settings option"
  constructed :: nat

definition process_start :: Process where
  "process_start = \<lparr>cached = None, constructed = 0\<rparr>"

definition get_settings :: "Environment \<Rightarrow> Process \<Rightarrow> (py_error + Settings) \<times> Process" where
  "get_settings env p =
     (case cached p of
        Some s \<Rightarrow> (Inr s, p)
      | None \<Rightarrow>
          (case Settings_init env of
             Inl e \<Rightarrow> (Inl e, p)
           | Inr s \<Rightarrow> (Inr s, \<lparr>cached = Some s, constructed = constructed p + 1\<rparr>)))"

text \<open>The results of successive calls of \<open>get_settings\<close>, one per environment given.\<close>

fun get_settings_calls ::
  "Environment list \<Rightarrow> Process \<Rightarrow> (py_error + Settings) list \<times> Process" where
  "get_settings_calls [] p = ([], p)"
| "get_settings_calls (env # envs) p =
     (case get_settings env p of
        (r, p') \<Rightarrow> (case get_settings_calls envs p' of (rs, p'') \<Rightarrow> (r # rs, p'')))"

section \<open>backend/agent/state.py\<close>

text \<open>
  The content of a message is a text or, for the provider in use, a list of text blocks.
  A tool-invocation request names a tool and carries an argument payload and an id.
\<close>

datatype content = Str pystr | Blocks "pystr list"

record tool_call =
  tc_name :: pystr
  tc_args :: "(pystr \<times> pystr) list"
  tc_id :: pystr

text \<open>
  Of the message classes only \<open>AIMessage\<close> has the attribute \<open>tool_calls\<close>;
  \<open>hasattr\<close> is \<open>False\<close> on the other two.
\<close>

datatype message =
    HumanMessage content
  | AIMessage content "tool_call list"
  | ToolMessage content pystr

fun msg_content :: "message \<Rightarrow> content" where
  "msg_content (HumanMessage c) = c"
| "msg_content (AIMessage c tcs) = c"
| "msg_content (ToolMessage c i) = c"

fun tool_calls_attr :: "message \<Rightarrow> tool_call list option" where
  "tool_calls_attr (HumanMessage c) = None"
| "tool_calls_attr (AIMessage c tcs) = Some tcs"
| "tool_calls_attr (ToolMessage c i) = None"

text \<open>
  \<open>AgentState\<close> is a dict with the keys \<open>messages\<close> and \<open>iterations\<close>. The source
  reads \<open>iterations\<close> with \<open>state.get("iterations", 0)\<close>, and a node returns a dict
  that may leave the key out, so the field is optional: \<open>None\<close> is the absent key.
\<close>

record AgentState =
  messages :: "message list"
  iterations :: "int option"

section \<open>backend/tools/arxiv_tool.py\<close>

text \<open>
  What the arXiv client yields for a paper, as far as the adapter reads it:
  \<open>paper_published\<close> is the text of \<open>published.strftime("%Y-%m-%d")\<close>, and
  \<open>paper_pdf_url\<close> may be \<open>None\<close>. The client is a function of the query and of the
  number of results asked for; it returns the papers the \<open>for\<close> loop receives, or
  raises.
\<close>

record Paper =
  paper_title :: pystr
  paper_authors :: "pystr list"
  paper_published :: pystr
  paper_summary :: pystr
  paper_pdf_url :: "pystr option"
  paper_entry_id :: pystr
  paper_categories :: "pystr list"

type_synonym arxiv_client = "pystr \<Rightarrow> int \<Rightarrow> py_error + Paper list"

text \<open>The dict appended to \<open>results\<close> for a paper.\<close>

record PaperEntry =
  entry_title :: pystr
  entry_authors :: pystr
  entry_published :: pystr
  entry_summary :: pystr
  entry_pdf_url :: "pystr option"
  entry_arxiv_url :: pystr
  entry_categories :: pystr

definition author_names :: "pystr list \<Rightarrow> pystr list" where
  "author_names names =
     take 3 names @
     (if length names > 3 then [py ''... +'' @ str_nat (length names - 3) @ py '' more'']
      else [])"

definition paper_entry :: "Paper \<Rightarrow> PaperEntry" where
  "paper_entry paper =
     \<lparr>entry_title = strip (paper_title paper),
      entry_authors = join (py '', '') (author_names (paper_authors paper)),
      entry_published = paper_published paper,
      entry_summary = take 300 (strip (replace_newlines (paper_summary paper))) @ py ''...'',
      entry_pdf_url = paper_pdf_url paper,
      entry_arxiv_url = paper_entry_id paper,
      entry_categories = join (py '', '') (take 3 (paper_categories paper))\<rparr>"

text \<open>An optional text inside an f-string: \<open>None\<close> prints as \<open>None\<close>.\<close>

definition fmt_optional :: "pystr option \<Rightarrow> pystr" where
  "fmt_optional v = (case v of None \<Rightarrow> py ''None'' | Some s \<Rightarrow> s)"

text \<open>The seven lines appended to \<open>output\<close> for entry number \<open>i\<close>.\<close>

definition format_paper :: "nat \<Rightarrow> PaperEntry \<Rightarrow> pystr list" where
  "format_paper i paper =
     [[10] @ str_nat i @ py ''. **'' @ entry_title paper @ py ''**'',
      py ''   '' @ [128197] @ py '' Published: '' @ entry_published paper,
      py ''   '' @ [128101] @ py '' Authors: '' @ entry_authors paper,
      py ''   '' @ [127991, 65039] @ py ''  Categories: '' @ entry_categories paper,
      py ''   '' @ [128196] @ py '' Summary: '' @ entry_summary paper,
      py ''   '' @ [128279] @ py '' PDF: '' @ fmt_optional (entry_pdf_url paper),
      py ''   '' @ [128279] @ py '' arXiv: '' @ entry_arxiv_url paper]"

text \<open>\<open>for i, paper in enumerate(results, i)\<close>\<close>

fun format_papers :: "nat \<Rightarrow> PaperEntry list \<Rightarrow> pystr list" where
  "format_papers i [] = []"
| "format_papers i (paper # rest) = format_paper i paper @ format_papers (Suc i) rest"

definition arxiv_output :: "pystr \<Rightarrow> PaperEntry list \<Rightarrow> pystr list" where
  "arxiv_output query results =
     (py ''Found '' @ str_nat (length results) @ py '' research papers for '' @ [39] @ query
        @ [39] @ py '':'' @ [10])
     # format_papers 1 results"

definition arxiv_no_papers :: "pystr \<Rightarrow> pystr" where
  "arxiv_no_papers query =
     py ''No papers found for query: '' @ [39] @ query @ [39]
       @ py ''. Try different keywords or broader terms.''"

definition arxiv_error :: "py_error \<Rightarrow> pystr" where
  "arxiv_error e =
     py ''Error searching arXiv: '' @ exc_str e
       @ py ''. Please try again with a different query.''"

text \<open>The body of the \<open>try\<close> statement of \<open>search_arxiv\<close>.\<close>

definition search_arxiv_body :: "arxiv_client \<Rightarrow> pystr \<Rightarrow> int \<Rightarrow> py_error + pystr" where
  "search_arxiv_body client query max_results =
     (let max_results = min max_results 10 in
      bind_err (client query max_results) (\<lambda>papers.
        let results = map paper_entry papers in
        if results = [] then Inr (arxiv_no_papers query)
        else Inr (join [10] (arxiv_output query results))))"

definition search_arxiv :: "arxiv_client \<Rightarrow> pystr \<Rightarrow> int \<Rightarrow> py_error + pystr" where
  "search_arxiv client query max_results =
     try_except (search_arxiv_body client query max_results) (\<lambda>e. Inr (arxiv_error e))"

section \<open>backend/tools/web_search_tool.py\<close>

text \<open>
  A result of the search service is a dict read with \<open>get\<close>, so each key may be
  absent. The service is a function of the query, of the keyword options and of the
  number of results asked for; it returns the list built from its results, or raises.
\<close>

record SearchHit =
  hit_title :: "pystr option"
  hit_href :: "pystr option"
  hit_body :: "pystr option"

type_synonym ddgs = "pystr \<Rightarrow> (pystr \<times> pystr) list \<Rightarrow> int \<Rightarrow> py_error + SearchHit list"

definition get_or :: "'a option \<Rightarrow> 'a \<Rightarrow> 'a" where
  "get_or v dflt = (case v of None \<Rightarrow> dflt | Some x \<Rightarrow> x)"

definition format_hit :: "nat \<Rightarrow> SearchHit \<Rightarrow> pystr list" where
  "format_hit i result =
     (let title = get_or (hit_title result) (py ''No title'');
          url = get_or (hit_href result) (py ''No URL'');
          body = get_or (hit_body result) (py ''No description'')
      in [[10] @ str_nat i @ py ''. **'' @ title @ py ''**'',
          py ''   '' @ [128279] @ py '' '' @ url,
          py ''   '' @ [128221] @ py '' '' @ take 200 body
            @ (if length body > 200 then py ''...'' else [])])"

fun format_hits :: "nat \<Rightarrow> SearchHit list \<Rightarrow> pystr list" where
  "format_hits i [] = []"
| "format_hits i (result # rest) = format_hit i result @ format_hits (Suc i) rest"

definition web_output :: "pystr \<Rightarrow> SearchHit list \<Rightarrow> pystr list" where
  "web_output query results =
     (py ''Found '' @ str_nat (length results) @ py '' web results for '' @ [39] @ query
        @ [39] @ py '':'' @ [10])
     # format_hits 1 results"

definition web_no_results :: "pystr \<Rightarrow> pystr" where
  "web_no_results query =
     py ''No web results found for query: '' @ [39] @ query @ [39]
       @ py ''. Try rephrasing or using different keywords.''"

definition web_error :: "py_error \<Rightarrow> pystr" where
  "web_error e = py ''Error searching web: '' @ exc_str e @ py ''. Please try again.''"

text \<open>The keyword arguments \<open>region='wt-wt'\<close> and \<open>safesearch='moderate'\<close>.\<close>

definition search_web_options :: "(pystr \<times> pystr) list" where
  "search_web_options = [(py ''region'', py ''wt-wt''), (py ''safesearch'', py ''moderate'')]"

definition search_web_body :: "ddgs \<Rightarrow> pystr \<Rightarrow> int \<Rightarrow> py_error + pystr" where
  "search_web_body ddgs_text query max_results =
     (let max_results = min max_results 10 in
      bind_err (ddgs_text query search_web_options max_results) (\<lambda>results.
        if results = [] then Inr (web_no_results query)
        else Inr (join [10] (web_output query results))))"

definition search_web :: "ddgs \<Rightarrow> pystr \<Rightarrow> int \<Rightarrow> py_error + pystr" where
  "search_web ddgs_text query max_results =
     try_except (search_web_body ddgs_text query max_results) (\<lambda>e. Inr (web_error e))"

section \<open>backend/tools/course_finder_tool.py\<close>

text \<open>\<open>d[key]\<close> for a dict with text keys, which raises \<open>KeyError\<close> on an absent key.\<close>

definition dict_item :: "(pystr \<times> 'v) list \<Rightarrow> pystr \<Rightarrow> py_error + 'v" where
  "dict_item d k =
     (case map_of d k of
        None \<Rightarrow> Inl (Raised KeyError ([39] @ k @ [39]))
      | Some v \<Rightarrow> Inr v)"

definition search_queries :: "pystr \<Rightarrow> (pystr \<times> pystr) list" where
  "search_queries topic =
     [(py ''courses'', topic @ py '' online course Coursera edX Udacity''),
      (py ''tutorials'', topic @ py '' tutorial documentation getting started''),
      (py ''books'', py ''best '' @ topic @ py '' books textbook O'' @ [39] @ py ''Reilly Manning''),
      (py ''videos'', topic @ py '' video lecture tutorial YouTube'')]"

text \<open>\<open>search_queries.get(resource_type, search_queries["courses"])\<close>\<close>

definition resource_query :: "pystr \<Rightarrow> pystr \<Rightarrow> py_error + pystr" where
  "resource_query topic resource_type =
     bind_err (dict_item (search_queries topic) (py ''courses'')) (\<lambda>dflt.
       Inr (dict_get (search_queries topic) resource_type dflt))"

definition quality_domains :: "pystr list" where
  "quality_domains =
     [py ''coursera.org'', py ''edx.org'', py ''udacity.com'', py ''mit.edu'', py ''stanford.edu'',
      py ''youtube.com'', py ''github.com'', py ''medium.com'', py ''towardsdatascience.com'',
      py ''kaggle.com'', py ''fast.ai'', py ''deeplearning.ai'']"

text \<open>\<open>any(domain in url for domain in quality_domains)\<close>\<close>

definition is_quality :: "pystr \<Rightarrow> bool" where
  "is_quality url = list_ex (\<lambda>domain. contains url domain) quality_domains"

definition rank_results :: "SearchHit list \<Rightarrow> SearchHit list" where
  "rank_results results =
     (let quality_results = filter (\<lambda>r. is_quality (get_or (hit_href r) [])) results;
          other_results = filter (\<lambda>r. r \<notin> set quality_results) results
      in take 5 quality_results @ take 3 other_results)"

definition format_resource :: "nat \<Rightarrow> SearchHit \<Rightarrow> pystr list" where
  "format_resource i result =
     (let title = get_or (hit_title result) (py ''No title'');
          url = get_or (hit_href result) (py ''No URL'');
          snippet = take 150 (get_or (hit_body result) (py ''No description''));
          badge = (if is_quality url then [11088, 32] else [])
      in [str_nat i @ py ''. '' @ badge @ py ''**'' @ title @ py ''**'',
          py ''   '' @ [128279] @ py '' '' @ url,
          py ''   '' @ [128221] @ py '' '' @ snippet @ py ''...'' @ [10]])"

fun format_resources :: "nat \<Rightarrow> SearchHit list \<Rightarrow> pystr list" where
  "format_resources i [] = []"
| "format_resources i (result # rest) = format_resource i result @ format_resources (Suc i) rest"

definition resources_output :: "pystr \<Rightarrow> pystr \<Rightarrow> SearchHit list \<Rightarrow> pystr list" where
  "resources_output topic resource_type ranked_results =
     ([127891] @ py '' **Learning Resources: '' @ topic @ py ''** ('' @ resource_type
        @ py '')'' @ [10])
     # format_resources 1 (take 6 ranked_results)"

definition resources_none :: "pystr \<Rightarrow> pystr \<Rightarrow> pystr" where
  "resources_none topic resource_type =
     py ''No '' @ resource_type @ py '' found for '' @ [39] @ topic @ [39]"

definition resources_error :: "py_error \<Rightarrow> pystr" where
  "resources_error e = [10060] @ py '' Error finding resources: '' @ exc_str e"

definition find_learning_resources_body ::
  "ddgs \<Rightarrow> pystr \<Rightarrow> pystr \<Rightarrow> py_error + pystr" where
  "find_learning_resources_body ddgs_text topic resource_type =
     bind_err (resource_query topic resource_type) (\<lambda>query.
     bind_err (ddgs_text query [] 8) (\<lambda>results.
       if results = [] then Inr (resources_none topic resource_type)
       else Inr (join [10] (resources_output topic resource_type (rank_results results)))))"

definition find_learning_resources :: "ddgs \<Rightarrow> pystr \<Rightarrow> pystr \<Rightarrow> py_error + pystr" where
  "find_learning_resources ddgs_text topic resource_type =
     try_except (find_learning_resources_body ddgs_text topic resource_type)
       (\<lambda>e. Inr (resources_error e))"

section \<open>backend/tools/summarization_tool.py\<close>

text \<open>
  The collaborators of the summarizer, each a function that returns or raises:
  \<open>requests.get\<close> with the response it returns (\<open>status_error\<close> is the message
  \<open>raise_for_status\<close> raises for the status, if it raises), the PDF reader with the
  pages of the document (a page is what its \<open>extract_text()\<close> returns or raises), and
  the chat model built from the settings, invoked with a prompt, with the text the
  f-string inserts for the content of its answer. Python's \<open>str.lower\<close> is an
  argument too, since it depends on the Unicode tables.
\<close>

record HttpResponse =
  status_error :: "pystr option"
  content_bytes :: "nat list"

type_synonym http_get = "pystr \<Rightarrow> py_error + HttpResponse"
type_synonym pdf_page = "py_error + pystr"
type_synonym pdf_reader = "nat list \<Rightarrow> py_error + pdf_page list"
type_synonym chat_invoke = "Settings \<Rightarrow> pystr \<Rightarrow> py_error + pystr"

definition raise_for_status :: "HttpResponse \<Rightarrow> py_error + unit" where
  "raise_for_status r =
     (case status_error r of None \<Rightarrow> Inr () | Some msg \<Rightarrow> Inl (Raised RequestException msg))"

text \<open>The loop over the pages: it stops at the first page whose extraction raises.\<close>

fun extract_texts :: "pdf_page list \<Rightarrow> py_error + pystr list" where
  "extract_texts [] = Inr []"
| "extract_texts (page # rest) =
     bind_err page (\<lambda>text. bind_err (extract_texts rest) (\<lambda>texts. Inr (text # texts)))"

definition extract_text_content :: "pdf_page list \<Rightarrow> py_error + pystr list" where
  "extract_text_content pages =
     (let num_pages = min (length pages) 10 in extract_texts (take num_pages pages))"

definition truncation_notice :: pystr where
  "truncation_notice = [10, 10] @ py ''[Content truncated due to length...]''"

definition limit_text :: "pystr \<Rightarrow> pystr" where
  "limit_text full_text =
     (if length full_text > 30000 then take 30000 full_text @ truncation_notice
      else full_text)"

definition focus_prompts :: "(pystr \<times> pystr) list" where
  "focus_prompts =
     [(py ''main findings'', py ''Focus on the main findings, results, and conclusions.''),
      (py ''methodology'',
       py ''Focus on the research methodology, experimental setup, and techniques used.''),
      (py ''results'',
       py ''Focus on the quantitative and qualitative results, performance metrics, and outcomes.''),
      (py ''introduction'', py ''Focus on the problem statement, motivation, and background.''),
      (py ''full summary'', py ''Provide a comprehensive summary covering all aspects.'')]"

text \<open>\<open>focus_prompts.get(focus_area.lower(), focus_prompts["main findings"])\<close>\<close>

definition focus_instruction :: "(pystr \<Rightarrow> pystr) \<Rightarrow> pystr \<Rightarrow> py_error + pystr" where
  "focus_instruction lower focus_area =
     bind_err (dict_item focus_prompts (py ''main findings'')) (\<lambda>dflt.
       Inr (dict_get focus_prompts (lower focus_area) dflt))"

definition build_prompt :: "pystr \<Rightarrow> pystr \<Rightarrow> pystr" where
  "build_prompt instruction full_text =
     py ''You are analyzing a research paper. '' @ instruction @ [10, 10]
     @ py ''Please provide a structured summary with:'' @ [10, 10]
     @ py ''1. **Title & Authors** (if identifiable from the text)'' @ [10]
     @ py ''2. **Main Topic** (1-2 sentences)'' @ [10]
     @ py ''3. **Key Points** (3-5 bullet points based on focus area)'' @ [10]
     @ py ''4. **Main Contributions** (what'' @ [39] @ py ''s new/novel)'' @ [10]
     @ py ''5. **Limitations** (if mentioned)'' @ [10, 10]
     @ py ''Keep the summary concise but informative (300-500 words).'' @ [10, 10]
     @ py ''---'' @ [10, 10]
     @ py ''PAPER CONTENT:'' @ [10]
     @ full_text @ [10, 10]
     @ py ''---'' @ [10, 10]
     @ py ''STRUCTURED SUMMARY:''"

text \<open>
  The statements of the \<open>try\<close> body up to the prompt: download, status check, reading
  the PDF, extraction, the length limit, the focus instruction.
\<close>

definition summarize_prompt ::
  "(pystr \<Rightarrow> pystr) \<Rightarrow> http_get \<Rightarrow> pdf_reader \<Rightarrow> pystr \<Rightarrow> pystr \<Rightarrow> py_error + pystr" where
  "summarize_prompt lower requests_get pdf_pages pdf_url focus_area =
     bind_err (requests_get pdf_url) (\<lambda>response.
     bind_err (raise_for_status response) (\<lambda>_.
     bind_err (pdf_pages (content_bytes response)) (\<lambda>pages.
     bind_err (extract_text_content pages) (\<lambda>text_content.
       let full_text = limit_text (join [10] text_content) in
       bind_err (focus_instruction lower focus_area) (\<lambda>instruction.
         Inr (build_prompt instruction full_text))))))"

definition summarize_paper_body ::
  "Settings \<Rightarrow> (pystr \<Rightarrow> pystr) \<Rightarrow> http_get \<Rightarrow> pdf_reader \<Rightarrow> chat_invoke \<Rightarrow> pystr \<Rightarrow> pystr
     \<Rightarrow> py_error + pystr" where
  "summarize_paper_body settings lower requests_get pdf_pages llm_invoke pdf_url focus_area =
     bind_err (summarize_prompt lower requests_get pdf_pages pdf_url focus_area) (\<lambda>prompt.
     bind_err (llm_invoke settings prompt) (\<lambda>summary.
       Inr ([128196] @ py '' **Paper Summary** ('' @ focus_area @ py ''):'' @ [10, 10]
            @ summary)))"

text \<open>The three \<open>except\<close> clauses, tried in the order of the source.\<close>

definition summarize_error :: "py_error \<Rightarrow> pystr" where
  "summarize_error e =
     (if exc_cls e = RequestException then
        [10060] @ py '' Error downloading PDF: '' @ exc_str e
          @ py ''. Please check if the URL is accessible.''
      else if exc_cls e = PdfReadError then
        [10060] @ py '' Error reading PDF: '' @ exc_str e
          @ py ''. The PDF may be corrupted or password-protected.''
      else [10060] @ py '' Error summarizing paper: '' @ exc_str e)"

definition summarize_paper ::
  "Settings \<Rightarrow> (pystr \<Rightarrow> pystr) \<Rightarrow> http_get \<Rightarrow> pdf_reader \<Rightarrow> chat_invoke \<Rightarrow> pystr \<Rightarrow> pystr
     \<Rightarrow> py_error + pystr" where
  "summarize_paper settings lower requests_get pdf_pages llm_invoke pdf_url focus_area =
     try_except
       (summarize_paper_body settings lower requests_get pdf_pages llm_invoke pdf_url focus_area)
       (\<lambda>e. Inr (summarize_error e))"

section \<open>backend/agent/graph.py\<close>

text \<open>
  The four objects the tool modules define with \<open>@tool\<close>, the list \<open>tools\<close> of
  \<open>graph.py\<close>, and the chat model: the constructor call of the source and
  \<open>bind_tools\<close>, which returns the model with the given tools declared to it.
\<close>

datatype tool_adapter = Search_arxiv | Search_web | Find_learning_resources | Summarize_paper

definition tools :: "tool_adapter list" where
  "tools = [Search_arxiv, Search_web]"

record ChatModel =
  model :: pystr
  temperature :: real
  api_key :: pystr
  convert_system_message_to_human :: bool
  bound_tools :: "tool_adapter list"

definition llm :: "Settings \<Rightarrow> ChatModel" where
  "llm settings =
     \<lparr>model = llm_model settings, temperature = llm_temperature settings,
      api_key = google_api_key settings, convert_system_message_to_human = True,
      bound_tools = []\<rparr>"

definition bind_tools :: "ChatModel \<Rightarrow> tool_adapter list \<Rightarrow> ChatModel" where
  "bind_tools m ts = m\<lparr>bound_tools := ts\<rparr>"

definition llm_with_tools :: "Settings \<Rightarrow> ChatModel" where
  "llm_with_tools settings = bind_tools (llm settings) tools"

text \<open>The tools handed to \<open>ToolNode\<close>.\<close>

definition tool_node_tools :: "tool_adapter list" where
  "tool_node_tools = tools"

datatype route = Tools | End

text \<open>\<open>state.get("iterations", 0)\<close>\<close>

definition get_iterations :: "AgentState \<Rightarrow> int" where
  "get_iterations state = (case iterations state of None \<Rightarrow> 0 | Some n \<Rightarrow> n)"

text \<open>\<open>messages[-1]\<close>, which raises \<open>IndexError\<close> on an empty list.\<close>

definition last_message :: "message list \<Rightarrow> py_error + message" where
  "last_message ms =
     (if ms = [] then Inl (Raised IndexError (py ''list index out of range''))
      else Inr (last ms))"

text \<open>
  \<open>should_continue\<close>: the last message is read first, then the iteration guard is
  tested, then the tool calls of the last message. Printing is left out.
\<close>

definition should_continue :: "Settings \<Rightarrow> AgentState \<Rightarrow> py_error + route" where
  "should_continue settings state =
     (case last_message (messages state) of
        Inl e \<Rightarrow> Inl e
      | Inr last_msg \<Rightarrow>
          (let its = get_iterations state in
           if its > max_iterations settings then Inr End
           else if (case tool_calls_attr last_msg of None \<Rightarrow> False | Some tcs \<Rightarrow> tcs \<noteq> [])
             then Inr Tools
           else Inr End))"

text \<open>The number of tool-invocation requests a message carries.\<close>

definition num_tool_calls :: "message \<Rightarrow> nat" where
  "num_tool_calls m = (case tool_calls_attr m of None \<Rightarrow> 0 | Some tcs \<Rightarrow> length tcs)"

text \<open>
  The language model and the prebuilt tool node are outside the source. Each is a
  function of the conversation history that returns its value or raises: the first is
  \<open>llm_with_tools.invoke\<close>, the second the call of \<open>tool_node\<close>. Within one run
  the history only grows, so no two calls of a run see the same argument, and such a
  function stands for an arbitrary sequence of answers.
\<close>

type_synonym llm_invoke = "message list \<Rightarrow> py_error + message"
type_synonym tool_node = "message list \<Rightarrow> py_error + message list"

text \<open>\<open>llm_node\<close> returns the dict with the response and the incremented counter.\<close>

definition llm_node :: "llm_invoke \<Rightarrow> AgentState \<Rightarrow> py_error + AgentState" where
  "llm_node invoke state =
     (case invoke (messages state) of
        Inl e \<Rightarrow> Inl e
      | Inr response \<Rightarrow>
          Inr \<lparr>messages = [response], iterations = Some (get_iterations state + 1)\<rparr>)"

text \<open>The tool node returns a dict that holds only the new tool messages.\<close>

definition run_tool_node :: "tool_node \<Rightarrow> AgentState \<Rightarrow> py_error + AgentState" where
  "run_tool_node tn state =
     (case tn (messages state) of
        Inl e \<Rightarrow> Inl e
      | Inr outs \<Rightarrow> Inr \<lparr>messages = outs, iterations = None\<rparr>)"

text \<open>
  The graph merges the dict a node returns into the state: \<open>messages\<close> has the reducer
  \<open>add_messages\<close>, which appends, and \<open>iterations\<close> is overwritten when the key is
  there.
\<close>

definition apply_update :: "AgentState \<Rightarrow> AgentState \<Rightarrow> AgentState" where
  "apply_update state upd =
     \<lparr>messages = messages state @ messages upd,
      iterations = (case iterations upd of None \<Rightarrow> iterations state | Some n \<Rightarrow> Some n)\<rparr>"

text \<open>
  The compiled graph of \<open>create_research_agent\<close>: entry point \<open>llm\<close>, the conditional
  edge \<open>should_continue\<close> from \<open>llm\<close> to \<open>tools\<close> or to the end, and the edge from
  \<open>tools\<close> back to \<open>llm\<close>. The second component of the result counts the
  invocations of the language model (the reasoning steps); it is bookkeeping of the
  model, not data of the program. The superstep budget of the graph runtime is not part
  of the source and is not modelled.
\<close>

function agent_loop ::
  "Settings \<Rightarrow> llm_invoke \<Rightarrow> tool_node \<Rightarrow> AgentState \<Rightarrow> nat \<Rightarrow> (py_error + AgentState) \<times> nat" where
  "agent_loop settings invoke tn state calls =
     (case llm_node invoke state of
        Inl e \<Rightarrow> (Inl e, calls + 1)
      | Inr upd \<Rightarrow>
          (case should_continue settings (apply_update state upd) of
             Inl e \<Rightarrow> (Inl e, calls + 1)
           | Inr End \<Rightarrow> (Inr (apply_update state upd), calls + 1)
           | Inr Tools \<Rightarrow>
               (case run_tool_node tn (apply_update state upd) of
                  Inl e \<Rightarrow> (Inl e, calls + 1)
                | Inr upd2 \<Rightarrow>
                    agent_loop settings invoke tn
                      (apply_update (apply_update state upd) upd2) (calls + 1))))"
  by pat_completeness auto

lemma should_continue_Tools_le:
  "should_continue settings s = Inr Tools \<Longrightarrow> get_iterations s \<le> max_iterations settings"
  by (auto simp: should_continue_def Let_def split: sum.splits if_splits)

lemma llm_node_iterations:
  "llm_node l s = Inr upd \<Longrightarrow> iterations upd = Some (get_iterations s + 1)"
  by (auto simp: llm_node_def split: sum.splits)

lemma run_tool_node_iterations:
  "run_tool_node tn s = Inr upd \<Longrightarrow> iterations upd = None"
  by (auto simp: run_tool_node_def split: sum.splits)

lemma get_iterations_apply_update:
  "get_iterations (apply_update s upd) =
     (case iterations upd of None \<Rightarrow> get_iterations s | Some n \<Rightarrow> n)"
  by (simp add: get_iterations_def apply_update_def split: option.splits)

termination agent_loop
proof (relation "measure (\<lambda>(settings, l, tn, s, calls).
                   nat (max_iterations settings - get_iterations s))")
  show "wf (measure (\<lambda>(settings, l, tn, s, calls).
              nat (max_iterations settings - get_iterations s)))"
    by simp
next
  fix settings :: Settings and l :: llm_invoke and tn :: tool_node and state :: AgentState
    and calls :: nat and upd :: AgentState and r :: route and upd2 :: AgentState
  assume n: "llm_node l state = Inr upd"
    and c: "should_continue settings (apply_update state upd) = Inr r"
    and r: "r = Tools"
    and t: "run_tool_node tn (apply_update state upd) = Inr upd2"
  have "get_iterations (apply_update state upd) = get_iterations state + 1"
    using llm_node_iterations [OF n] by (simp add: get_iterations_apply_update)
  moreover have "get_iterations (apply_update state upd) \<le> max_iterations settings"
    using c r should_continue_Tools_le by simp
  moreover have "get_iterations (apply_update (apply_update state upd) upd2)
                 = get_iterations (apply_update state upd)"
    using run_tool_node_iterations [OF t] by (simp add: get_iterations_apply_update)
  ultimately show "((settings, l, tn, apply_update (apply_update state upd) upd2, calls + 1),
                    (settings, l, tn, state, calls))
        \<in> measure (\<lambda>(settings, l, tn, s, calls).
                     nat (max_iterations settings - get_iterations s))"
    by simp
qed

declare agent_loop.simps [simp del]

text \<open>\<open>research_agent.invoke(initial_state)\<close> and the number of reasoning steps it takes.\<close>

definition research_agent_invoke ::
  "Settings \<Rightarrow> llm_invoke \<Rightarrow> tool_node \<Rightarrow> AgentState \<Rightarrow> py_error + AgentState" where
  "research_agent_invoke settings invoke tn state =
     fst (agent_loop settings invoke tn state 0)"

definition reasoning_steps :: "Settings \<Rightarrow> llm_invoke \<Rightarrow> tool_node \<Rightarrow> AgentState \<Rightarrow> nat" where
  "reasoning_steps settings invoke tn state =
     snd (agent_loop settings invoke tn state 0)"

text \<open>The dict \<open>run_research_query\<close> returns.\<close>

record QueryResult =
  response :: content
  iterations_taken :: int
  success :: bool

definition initial_state :: "pystr \<Rightarrow> AgentState" where
  "initial_state query = \<lparr>messages = [HumanMessage (Str query)], iterations = Some 0\<rparr>"

text \<open>\<open>result["iterations"]\<close>, which raises \<open>KeyError\<close> when the key is absent.\<close>

definition iterations_item :: "AgentState \<Rightarrow> py_error + int" where
  "iterations_item state =
     (case iterations state of
        None \<Rightarrow> Inl (Raised KeyError (39 # py ''iterations'' @ [39]))
      | Some n \<Rightarrow> Inr n)"

text \<open>The body of the \<open>try\<close> statement of \<open>run_research_query\<close>.\<close>

definition run_research_query_body ::
  "Settings \<Rightarrow> llm_invoke \<Rightarrow> tool_node \<Rightarrow> pystr \<Rightarrow> py_error + QueryResult" where
  "run_research_query_body settings invoke tn query =
     bind_err (research_agent_invoke settings invoke tn (initial_state query)) (\<lambda>result.
     bind_err (last_message (messages result)) (\<lambda>final_message.
     bind_err (iterations_item result) (\<lambda>n.
       Inr \<lparr>response = msg_content final_message, iterations_taken = n, success = True\<rparr>)))"

text \<open>
  \<open>run_research_query\<close> returns a dict on every path, so its value is a plain
  \<open>QueryResult\<close>: the \<open>except\<close> clause turns an exception of the body into the
  failure dict.
\<close>

definition failure_result :: "py_error \<Rightarrow> QueryResult" where
  "failure_result e =
     \<lparr>response = Str (py ''I encountered an error: '' @ exc_str e
                        @ py ''. Please try rephrasing your question.''),
      iterations_taken = 0,
      success = False\<rparr>"

definition run_research_query :: "Settings \<Rightarrow> llm_invoke \<Rightarrow> tool_node \<Rightarrow> pystr \<Rightarrow> QueryResult" where
  "run_research_query settings invoke tn query =
     (case run_research_query_body settings invoke tn query of
        Inl e \<Rightarrow> failure_result e
      | Inr r \<Rightarrow> r)"

text \<open>
  The course of a run in which every reasoning step so far asked for tools and nothing
  raised: \<open>turn_history k\<close> is the history that reasoning step number \<open>k\<close> reads
  (counted from 0, so step 0 reads the user's message alone), and \<open>completes_turns k\<close>
  says that the steps \<open>0\<close> to \<open>k - 1\<close> each returned an assistant message with at
  least one tool call and that the tool node returned after each.
\<close>

fun turn_history :: "llm_invoke \<Rightarrow> tool_node \<Rightarrow> pystr \<Rightarrow> nat \<Rightarrow> message list" where
  "turn_history l tn query 0 = messages (initial_state query)"
| "turn_history l tn query (Suc k) =
     (case l (turn_history l tn query k) of
        Inl e \<Rightarrow> []
      | Inr m \<Rightarrow>
          (case tn (turn_history l tn query k @ [m]) of
             Inl e \<Rightarrow> []
           | Inr outs \<Rightarrow> turn_history l tn query k @ [m] @ outs))"

fun completes_turns :: "llm_invoke \<Rightarrow> tool_node \<Rightarrow> pystr \<Rightarrow> nat \<Rightarrow> bool" where
  "completes_turns l tn query 0 = True"
| "completes_turns l tn query (Suc k) =
     (completes_turns l tn query k \<and>
      (case l (turn_history l tn query k) of
         Inl e \<Rightarrow> False
       | Inr m \<Rightarrow>
           num_tool_calls m > 0 \<and>
           (case tn (turn_history l tn query k @ [m]) of Inl e \<Rightarrow> False | Inr outs \<Rightarrow> True)))"

section \<open>Example inputs\<close>

text \<open>
  A configuration with the two credentials set and everything else left to the
  defaults, a model that asks for a paper search at every step (its text names the
  length of the history it read), a model that does so twice and then raises, and a tool
  node that returns one tool message.
\<close>

definition example_env :: Environment where
  "example_env =
     \<lparr>env_groq_api_key = Value (py ''key-1''), env_google_api_key = Value (py ''key-2''),
      env_llm_model = Unset, env_llm_temperature = Unset, env_max_iterations = Unset,
      env_api_title = Unset, env_api_version = Unset\<rparr>"

definition example_settings :: Settings where
  "example_settings =
     \<lparr>groq_api_key = py ''key-1'', google_api_key = py ''key-2'',
      llm_model = py ''gemini-2.5-flash'', llm_temperature = 7 / 10, max_iterations = 10,
      api_title = py ''AI Research Assistant'', api_version = py ''1.0.0''\<rparr>"

definition no_credentials_env :: Environment where
  "no_credentials_env =
     \<lparr>env_groq_api_key = Unset, env_google_api_key = Unset,
      env_llm_model = Unset, env_llm_temperature = Unset, env_max_iterations = Unset,
      env_api_title = Unset, env_api_version = Unset\<rparr>"

definition search_call :: tool_call where
  "search_call =
     \<lparr>tc_name = py ''search_arxiv'', tc_args = [(py ''query'', py ''transformers'')],
      tc_id = py ''call_1''\<rparr>"

definition always_tools :: llm_invoke where
  "always_tools h = Inr (AIMessage (Str (py ''step after '' @ str_nat (length h))) [search_call])"

definition raises_third :: llm_invoke where
  "raises_third h =
     (if length h \<ge> 5 then Inl (Raised OtherException (py ''connection reset''))
      else always_tools h)"

definition one_tool_message :: tool_node where
  "one_tool_message h = Inr [ToolMessage (Str (py ''No papers found'')) (py ''call_1'')]"

text \<open>
  A paper and a search result, and services that return exactly as many of them as
  they are asked for (and raise when asked for a negative number).
\<close>

definition example_paper :: Paper where
  "example_paper =
     \<lparr>paper_title = py '' Attention Is All You Need '',
      paper_authors = [py ''A'', py ''B'', py ''C'', py ''D'', py ''E''],
      paper_published = py ''2017-06-12'',
      paper_summary = py ''The dominant models'' @ [10] @ py ''are recurrent.'',
      paper_pdf_url = Some (py ''https://arxiv.org/pdf/1706.03762''),
      paper_entry_id = py ''http://arxiv.org/abs/1706.03762'',
      paper_categories = [py ''cs.CL'', py ''cs.LG'']\<rparr>"

definition example_hit :: SearchHit where
  "example_hit =
     \<lparr>hit_title = Some (py ''Machine Learning''),
      hit_href = Some (py ''https://www.coursera.org/learn/machine-learning''),
      hit_body = Some (py ''A course.'')\<rparr>"

definition obliging_arxiv :: arxiv_client where
  "obliging_arxiv query n =
     (if n < 0 then Inl (Raised OtherException (py ''negative count''))
      else Inr (replicate (nat n) example_paper))"

definition obliging_ddgs :: ddgs where
  "obliging_ddgs query options n =
     (if n < 0 then Inl (Raised OtherException (py ''negative count''))
      else Inr (replicate (nat n) example_hit))"

text \<open>Lower case for ASCII text, where it is what \<open>str.lower\<close> computes.\<close>

definition ascii_lower :: "pystr \<Rightarrow> pystr" where
  "ascii_lower s = map (\<lambda>c. if 65 \<le> c \<and> c \<le> 90 then c + 32 else c) s"

text \<open>
  A download that succeeds, a PDF of twelve pages of one line each, and a download that
  raises.
\<close>

definition download_ok :: http_get where
  "download_ok url = Inr \<lparr>status_error = None, content_bytes = [37, 80, 68, 70]\<rparr>"

definition twelve_pages :: pdf_reader where
  "twelve_pages bytes = Inr (replicate 12 (Inr (py ''One line.'')))"

definition unreachable :: http_get where
  "unreachable url = Inl (Raised RequestException (py ''Connection refused''))"



definition long_page :: pdf_reader where
  "long_page bytes = Inr [Inr (replicate 40000 120), Inr (py ''Second page.'')]"

definition echo_prompt :: chat_invoke where
  "echo_prompt settings prompt = Inr prompt"

section \<open>Lemmas about the graph\<close>

lemma last_message_nonempty: "ms \<noteq> [] \<Longrightarrow> last_message ms = Inr (last ms)"
  by (simp add: last_message_def)

lemma should_continue_after_llm:
  "should_continue settings \<lparr>messages = ms @ [m], iterations = Some i\<rparr> =
     Inr (if i > max_iterations settings then End
          else if num_tool_calls m > 0 then Tools else End)"
  by (auto simp: should_continue_def last_message_def num_tool_calls_def get_iterations_def
           split: option.splits)

lemma apply_llm_update:
  "apply_update s \<lparr>messages = [m], iterations = Some i\<rparr>
     = \<lparr>messages = messages s @ [m], iterations = Some i\<rparr>"
  by (simp add: apply_update_def)

lemma apply_tool_update:
  "apply_update \<lparr>messages = ms, iterations = Some i\<rparr> \<lparr>messages = outs, iterations = None\<rparr>
     = \<lparr>messages = ms @ outs, iterations = Some i\<rparr>"
  by (simp add: apply_update_def)

lemma agent_loop_calls:
  "snd (agent_loop settings l tn s n) \<le> n + 1 + nat (max_iterations settings - get_iterations s)"
proof (induction settings l tn s n rule: agent_loop.induct)
  case (1 settings l tn state calls)
  show ?case
  proof (cases "llm_node l state")
    case (Inl e)
    then show ?thesis by (subst agent_loop.simps) simp
  next
    case (Inr upd)
    note node = this
    let ?s1 = "apply_update state upd"
    have it1: "get_iterations ?s1 = get_iterations state + 1"
      using llm_node_iterations [OF node] by (simp add: get_iterations_apply_update)
    show ?thesis
    proof (cases "should_continue settings ?s1")
      case (Inl e)
      with node show ?thesis by (subst agent_loop.simps) simp
    next
      case (Inr r)
      note sc = this
      show ?thesis
      proof (cases r)
        case End
        with node sc show ?thesis by (subst agent_loop.simps) simp
      next
        case Tools
        note r = this
        have le: "get_iterations ?s1 \<le> max_iterations settings"
          using sc r should_continue_Tools_le by simp
        show ?thesis
        proof (cases "run_tool_node tn ?s1")
          case (Inl e)
          with node sc r show ?thesis by (subst agent_loop.simps) simp
        next
          case (Inr upd2)
          note t = this
          have it2: "get_iterations (apply_update ?s1 upd2) = get_iterations ?s1"
            using run_tool_node_iterations [OF t] by (simp add: get_iterations_apply_update)
          have "snd (agent_loop settings l tn (apply_update ?s1 upd2) (calls + 1))
                 \<le> calls + 1 + 1 + nat (max_iterations settings - get_iterations (apply_update ?s1 upd2))"
            using "1.IH" [OF node sc r t] .
          moreover have "agent_loop settings l tn state calls
                = agent_loop settings l tn (apply_update ?s1 upd2) (calls + 1)"
            using node sc r t by (subst agent_loop.simps) simp
          ultimately show ?thesis using it1 it2 le by simp
        qed
      qed
    qed
  qed
qed

lemma agent_loop_step_tools:
  assumes "l (messages s) = Inr m" and "num_tool_calls m > 0"
    and "tn (messages s @ [m]) = Inr outs"
    and "get_iterations s + 1 \<le> max_iterations settings"
  shows "agent_loop settings l tn s n =
         agent_loop settings l tn
           \<lparr>messages = messages s @ [m] @ outs, iterations = Some (get_iterations s + 1)\<rparr> (n + 1)"
proof -
  have node: "llm_node l s = Inr \<lparr>messages = [m], iterations = Some (get_iterations s + 1)\<rparr>"
    using assms(1) by (simp add: llm_node_def)
  have sc: "should_continue settings
              \<lparr>messages = messages s @ [m], iterations = Some (get_iterations s + 1)\<rparr> = Inr Tools"
    using assms(2,4) by (simp add: should_continue_after_llm)
  have t: "run_tool_node tn \<lparr>messages = messages s @ [m], iterations = Some (get_iterations s + 1)\<rparr>
             = Inr \<lparr>messages = outs, iterations = None\<rparr>"
    using assms(3) by (simp add: run_tool_node_def)
  show ?thesis
    apply (subst agent_loop.simps)
    apply (simp only: node sum.case apply_llm_update sc route.case t apply_tool_update append_assoc)
    done
qed

lemma agent_loop_step_end:
  assumes "l (messages s) = Inr m"
    and "get_iterations s + 1 > max_iterations settings \<or> num_tool_calls m = 0"
  shows "agent_loop settings l tn s n =
         (Inr \<lparr>messages = messages s @ [m], iterations = Some (get_iterations s + 1)\<rparr>, n + 1)"
proof -
  have node: "llm_node l s = Inr \<lparr>messages = [m], iterations = Some (get_iterations s + 1)\<rparr>"
    using assms(1) by (simp add: llm_node_def)
  have sc: "should_continue settings
              \<lparr>messages = messages s @ [m], iterations = Some (get_iterations s + 1)\<rparr> = Inr End"
    using assms(2) by (auto simp: should_continue_after_llm)
  show ?thesis
    apply (subst agent_loop.simps)
    apply (simp only: node sum.case apply_llm_update sc route.case)
    done
qed

lemma agent_loop_step_raise:
  assumes "l (messages s) = Inl e"
  shows "agent_loop settings l tn s n = (Inl e, n + 1)"
  using assms by (subst agent_loop.simps) (simp add: llm_node_def)

lemma agent_loop_prefix:
  assumes "completes_turns l tn query k" and "int k \<le> max_iterations settings"
  shows "agent_loop settings l tn (initial_state query) n =
         agent_loop settings l tn
           \<lparr>messages = turn_history l tn query k, iterations = Some (int k)\<rparr> (n + k)"
  using assms
proof (induction k)
  case 0
  then show ?case by (simp add: initial_state_def)
next
  case (Suc k)
  let ?h = "turn_history l tn query k"
  let ?s = "\<lparr>messages = ?h, iterations = Some (int k)\<rparr>"
  from Suc.prems(1) obtain m outs where
    m: "l ?h = Inr m" and tc: "num_tool_calls m > 0" and outs: "tn (?h @ [m]) = Inr outs"
    and pre: "completes_turns l tn query k"
    by (auto split: sum.splits)
  have "agent_loop settings l tn (initial_state query) n = agent_loop settings l tn ?s (n + k)"
    using Suc.IH [OF pre] Suc.prems(2) by simp
  also have "\<dots> = agent_loop settings l tn
      \<lparr>messages = messages ?s @ [m] @ outs, iterations = Some (get_iterations ?s + 1)\<rparr> (n + k + 1)"
    using m tc outs Suc.prems(2)
    by (intro agent_loop_step_tools) (simp_all add: get_iterations_def)
  also have "\<dots> = agent_loop settings l tn
      \<lparr>messages = turn_history l tn query (Suc k), iterations = Some (int (Suc k))\<rparr> (n + Suc k)"
    using m outs by (simp add: get_iterations_def add.commute)
  finally show ?case .
qed

lemma should_continue_no_message:
  "messages state = [] \<Longrightarrow>
     should_continue settings state = Inl (Raised IndexError (py ''list index out of range''))"
  by (simp add: should_continue_def last_message_def)

section \<open>The claims about the agent\<close>

text \<open>
  Claim C1. In a state that has a last message and whose iteration counter is above
  \<open>max_iterations\<close>, \<open>should_continue\<close> returns \<open>end\<close>, whatever the last message
  carries: the test of the counter comes before the test of the tool calls. (The
  counter is \<open>state.get("iterations", 0)\<close>. A state without any message has no last
  message; there \<open>messages[-1]\<close> raises, see \<open>should_continue_no_message\<close>. The
  graph calls \<open>should_continue\<close> after \<open>llm_node\<close> only, which has appended one.)
\<close>

theorem should_continue_over_ceiling:
  assumes "messages state \<noteq> []"
    and "get_iterations state > max_iterations settings"
  shows "should_continue settings state = Inr End"
  using assms by (simp add: should_continue_def last_message_def)

theorem should_continue_over_ceiling_witness:
  "messages \<lparr>messages = [HumanMessage (Str (py ''q'')), AIMessage (Str []) [search_call]],
             iterations = Some 11\<rparr> \<noteq> [] \<and>
   get_iterations \<lparr>messages = [HumanMessage (Str (py ''q'')), AIMessage (Str []) [search_call]],
             iterations = Some 11\<rparr> > max_iterations example_settings \<and>
   should_continue example_settings
     \<lparr>messages = [HumanMessage (Str (py ''q'')), AIMessage (Str []) [search_call]],
      iterations = Some 11\<rparr> = Inr End"
  using should_continue_over_ceiling
    [of "\<lparr>messages = [HumanMessage (Str (py ''q'')), AIMessage (Str []) [search_call]],
             iterations = Some 11\<rparr>" example_settings]
  by (simp add: get_iterations_def example_settings_def)

text \<open>
  Claim C2. In a state that has a last message and whose iteration counter is at most
  \<open>max_iterations\<close>, \<open>should_continue\<close> returns \<open>tools\<close> if the last message
  carries one or more tool calls, and \<open>end\<close> if it carries none.
\<close>

theorem should_continue_within_ceiling:
  assumes "messages state \<noteq> []"
    and "get_iterations state \<le> max_iterations settings"
  shows "(num_tool_calls (last (messages state)) \<ge> 1 \<longrightarrow>
            should_continue settings state = Inr Tools) \<and>
         (num_tool_calls (last (messages state)) = 0 \<longrightarrow>
            should_continue settings state = Inr End)"
  using assms
  by (auto simp: should_continue_def last_message_def num_tool_calls_def split: option.splits)

theorem should_continue_within_ceiling_witness:
  "messages \<lparr>messages = [HumanMessage (Str (py ''q'')), AIMessage (Str []) [search_call]],
             iterations = Some 10\<rparr> \<noteq> [] \<and>
   get_iterations \<lparr>messages = [HumanMessage (Str (py ''q'')), AIMessage (Str []) [search_call]],
             iterations = Some 10\<rparr> \<le> max_iterations example_settings \<and>
   num_tool_calls (last (messages
     \<lparr>messages = [HumanMessage (Str (py ''q'')), AIMessage (Str []) [search_call]],
      iterations = Some 10\<rparr>)) \<ge> 1 \<and>
   should_continue example_settings
     \<lparr>messages = [HumanMessage (Str (py ''q'')), AIMessage (Str []) [search_call]],
      iterations = Some 10\<rparr> = Inr Tools \<and>
   messages \<lparr>messages = [HumanMessage (Str (py ''q'')), AIMessage (Str (py ''answer'')) []],
             iterations = Some 1\<rparr> \<noteq> [] \<and>
   get_iterations \<lparr>messages = [HumanMessage (Str (py ''q'')), AIMessage (Str (py ''answer'')) []],
             iterations = Some 1\<rparr> \<le> max_iterations example_settings \<and>
   num_tool_calls (last (messages
     \<lparr>messages = [HumanMessage (Str (py ''q'')), AIMessage (Str (py ''answer'')) []],
      iterations = Some 1\<rparr>)) = 0 \<and>
   should_continue example_settings
     \<lparr>messages = [HumanMessage (Str (py ''q'')), AIMessage (Str (py ''answer'')) []],
      iterations = Some 1\<rparr> = Inr End"
  using should_continue_within_ceiling
    [of "\<lparr>messages = [HumanMessage (Str (py ''q'')), AIMessage (Str []) [search_call]],
             iterations = Some 10\<rparr>" example_settings]
    should_continue_within_ceiling
    [of "\<lparr>messages = [HumanMessage (Str (py ''q'')), AIMessage (Str (py ''answer'')) []],
             iterations = Some 1\<rparr>" example_settings]
  by (simp add: get_iterations_def example_settings_def num_tool_calls_def)

text \<open>
  Claim C3. The loop of the graph is the total function \<open>agent_loop\<close>, whose
  termination is proved above from the iteration guard alone, for every model and every
  tool node. It invokes the model at most \<open>max_iterations + 1\<close> times when the ceiling
  is not negative (in general at most \<open>nat max_iterations + 1\<close> times). With the
  ceiling 10 and a model that asks for tools at each of its 11 steps,
  \<open>run_research_query\<close> returns after the 11th step, with \<open>success = True\<close>, 11
  iterations and the content of the 11th assistant message as the response.
\<close>

theorem loop_driver_terminates:
  "reasoning_steps settings l tn (initial_state query) \<le> nat (max_iterations settings) + 1 \<and>
   (0 \<le> max_iterations settings \<longrightarrow>
      int (reasoning_steps settings l tn (initial_state query)) \<le> max_iterations settings + 1) \<and>
   (max_iterations settings = 10 \<longrightarrow> completes_turns l tn query 10 \<longrightarrow>
    l (turn_history l tn query 10) = Inr m \<longrightarrow> num_tool_calls m > 0 \<longrightarrow>
      reasoning_steps settings l tn (initial_state query) = 11 \<and>
      run_research_query settings l tn query =
        \<lparr>response = msg_content m, iterations_taken = 11, success = True\<rparr>)"
proof -
  have bound: "reasoning_steps settings l tn (initial_state query) \<le> nat (max_iterations settings) + 1"
    using agent_loop_calls [of settings l tn "initial_state query" 0]
    by (simp add: reasoning_steps_def initial_state_def get_iterations_def)
  have scenario: "reasoning_steps settings l tn (initial_state query) = 11 \<and>
      run_research_query settings l tn query =
        \<lparr>response = msg_content m, iterations_taken = 11, success = True\<rparr>"
    if c: "max_iterations settings = 10" and pre: "completes_turns l tn query 10"
      and m: "l (turn_history l tn query 10) = Inr m"
  proof -
    let ?s = "\<lparr>messages = turn_history l tn query 10, iterations = Some (int 10)\<rparr>"
    have "agent_loop settings l tn (initial_state query) 0 = agent_loop settings l tn ?s (0 + 10)"
      using pre c by (intro agent_loop_prefix) simp_all
    also have "\<dots> = (Inr \<lparr>messages = messages ?s @ [m], iterations = Some (get_iterations ?s + 1)\<rparr>,
                       0 + 10 + 1)"
      using m c by (intro agent_loop_step_end) (simp_all add: get_iterations_def)
    finally have loop: "agent_loop settings l tn (initial_state query) 0 =
        (Inr \<lparr>messages = turn_history l tn query 10 @ [m], iterations = Some 11\<rparr>, 11)"
      by (simp add: get_iterations_def)
    show ?thesis
      by (simp add: reasoning_steps_def run_research_query_def run_research_query_body_def
            research_agent_invoke_def loop bind_err_def last_message_def iterations_item_def)
  qed
  show ?thesis using bound scenario by auto
qed

theorem loop_driver_terminates_witness:
  "max_iterations example_settings = 10 \<and>
   completes_turns always_tools one_tool_message (py ''find papers'') 10 \<and>
   always_tools (turn_history always_tools one_tool_message (py ''find papers'') 10)
     = Inr (AIMessage (Str (py ''step after 21'')) [search_call]) \<and>
   num_tool_calls (AIMessage (Str (py ''step after 21'')) [search_call]) > 0 \<and>
   0 \<le> max_iterations example_settings \<and>
   int (reasoning_steps example_settings always_tools one_tool_message
          (initial_state (py ''find papers''))) \<le> max_iterations example_settings + 1 \<and>
   reasoning_steps example_settings always_tools one_tool_message
     (initial_state (py ''find papers'')) = 11 \<and>
   run_research_query example_settings always_tools one_tool_message (py ''find papers'') =
     \<lparr>response = Str (py ''step after 21''), iterations_taken = 11, success = True\<rparr>"
proof -
  have len: "length (turn_history always_tools one_tool_message q k) = 2 * k + 1" for q k
    by (induction k) (simp_all add: initial_state_def always_tools_def one_tool_message_def)
  have pre: "completes_turns always_tools one_tool_message q k" for q k
    by (induction k) (simp_all add: always_tools_def one_tool_message_def num_tool_calls_def)
  have m: "always_tools (turn_history always_tools one_tool_message (py ''find papers'') 10)
     = Inr (AIMessage (Str (py ''step after 21'')) [search_call])"
    by (simp add: always_tools_def [of "turn_history _ _ _ _"] len str_nat.simps py_def)
  have c: "max_iterations example_settings = 10" by (simp add: example_settings_def)
  have tc: "num_tool_calls (AIMessage (Str (py ''step after 21'')) [search_call]) > 0"
    by (simp add: num_tool_calls_def)
  show ?thesis
    using loop_driver_terminates [of example_settings always_tools one_tool_message
        "py ''find papers''" "AIMessage (Str (py ''step after 21'')) [search_call]"]
      c pre m tc
    by simp
qed

text \<open>
  Claim C5. An exception that reaches the \<open>except\<close> clause of \<open>run_research_query\<close>
  is not propagated: the function returns the dict with \<open>success = False\<close>, the
  message built from \<open>str(e)\<close>, and \<open>iterations = 0\<close>. This is so however many
  reasoning steps were completed before: when \<open>k\<close> steps have completed and the model
  raises at the next one, \<open>k + 1\<close> steps were taken and the dict still says 0.
\<close>

theorem run_research_query_failure:
  "(run_research_query_body settings l tn query = Inl e \<longrightarrow>
      run_research_query settings l tn query =
        \<lparr>response = Str (py ''I encountered an error: '' @ exc_str e
                           @ py ''. Please try rephrasing your question.''),
         iterations_taken = 0, success = False\<rparr>) \<and>
   (completes_turns l tn query k \<longrightarrow> int k \<le> max_iterations settings \<longrightarrow>
    l (turn_history l tn query k) = Inl e \<longrightarrow>
      reasoning_steps settings l tn (initial_state query) = k + 1 \<and>
      run_research_query settings l tn query =
        \<lparr>response = Str (py ''I encountered an error: '' @ exc_str e
                           @ py ''. Please try rephrasing your question.''),
         iterations_taken = 0, success = False\<rparr>)"
proof -
  have caught: "run_research_query settings l tn query = failure_result e"
    if "run_research_query_body settings l tn query = Inl e"
    using that by (simp add: run_research_query_def)
  have fault: "reasoning_steps settings l tn (initial_state query) = k + 1 \<and>
               run_research_query_body settings l tn query = Inl e"
    if pre: "completes_turns l tn query k" and k: "int k \<le> max_iterations settings"
      and e: "l (turn_history l tn query k) = Inl e"
  proof -
    let ?s = "\<lparr>messages = turn_history l tn query k, iterations = Some (int k)\<rparr>"
    have "agent_loop settings l tn (initial_state query) 0 = agent_loop settings l tn ?s (0 + k)"
      using pre k by (rule agent_loop_prefix)
    also have "\<dots> = (Inl e, 0 + k + 1)"
      using e by (intro agent_loop_step_raise) simp
    finally show ?thesis
      by (simp add: reasoning_steps_def run_research_query_body_def research_agent_invoke_def
            bind_err_def)
  qed
  show ?thesis using caught fault by (auto simp: failure_result_def)
qed

theorem run_research_query_failure_witness:
  "run_research_query_body example_settings raises_third one_tool_message (py ''find papers'')
     = Inl (Raised OtherException (py ''connection reset'')) \<and>
   completes_turns raises_third one_tool_message (py ''find papers'') 2 \<and>
   int 2 \<le> max_iterations example_settings \<and>
   raises_third (turn_history raises_third one_tool_message (py ''find papers'') 2)
     = Inl (Raised OtherException (py ''connection reset'')) \<and>
   reasoning_steps example_settings raises_third one_tool_message
     (initial_state (py ''find papers'')) = 3 \<and>
   run_research_query example_settings raises_third one_tool_message (py ''find papers'') =
     \<lparr>response = Str (py ''I encountered an error: connection reset. Please try rephrasing your question.''),
      iterations_taken = 0, success = False\<rparr>"
proof -
  have pre: "completes_turns raises_third one_tool_message (py ''find papers'') 2"
    by (simp add: eval_nat_numeral raises_third_def always_tools_def one_tool_message_def
          num_tool_calls_def initial_state_def)
  have e: "raises_third (turn_history raises_third one_tool_message (py ''find papers'') 2)
     = Inl (Raised OtherException (py ''connection reset''))"
    by (simp add: eval_nat_numeral raises_third_def always_tools_def one_tool_message_def
          initial_state_def)
  have k: "int 2 \<le> max_iterations example_settings" by (simp add: example_settings_def)
  have "agent_loop example_settings raises_third one_tool_message
          (initial_state (py ''find papers'')) 0
        = agent_loop example_settings raises_third one_tool_message
            \<lparr>messages = turn_history raises_third one_tool_message (py ''find papers'') 2,
             iterations = Some (int 2)\<rparr> (0 + 2)"
    using pre k by (rule agent_loop_prefix)
  also have "\<dots> = (Inl (Raised OtherException (py ''connection reset'')), 0 + 2 + 1)"
    using e by (intro agent_loop_step_raise) simp
  finally have body: "run_research_query_body example_settings raises_third one_tool_message
      (py ''find papers'') = Inl (Raised OtherException (py ''connection reset''))"
    by (simp add: run_research_query_body_def research_agent_invoke_def bind_err_def)
  show ?thesis
    using run_research_query_failure [of example_settings raises_third one_tool_message
        "py ''find papers''" "Raised OtherException (py ''connection reset'')" 2] pre e k body
    by (simp add: py_def)
qed

section \<open>Lemmas about the tools and the settings\<close>

lemma try_except_total: "\<exists>v. try_except body (\<lambda>e. Inr (h e)) = Inr v"
  by (cases body) (simp_all add: try_except_def)

lemma get_settings_cached:
  "cached p = Some s \<Longrightarrow> get_settings env p = (Inr s, p)"
  by (simp add: get_settings_def)

lemma get_settings_calls_cached:
  "cached p = Some s \<Longrightarrow> get_settings_calls envs p = (replicate (length envs) (Inr s), p)"
  by (induction envs) (simp_all add: get_settings_cached)

lemma get_settings_calls_fresh:
  assumes "cached p = None" and "get_settings_calls envs p = (results, p')"
  shows "(p' = p \<and> (\<forall>r \<in> set results. \<exists>e. r = Inl e)) \<or>
         (\<exists>s. cached p' = Some s \<and> constructed p' = constructed p + 1 \<and>
              (\<forall>r \<in> set results. (\<exists>e. r = Inl e) \<or> r = Inr s))"
  using assms
proof (induction envs arbitrary: results p')
  case Nil
  then show ?case by simp
next
  case (Cons env envs)
  show ?case
  proof (cases "Settings_init env")
    case (Inl e)
    then have g: "get_settings env p = (Inl e, p)"
      using Cons.prems(1) by (simp add: get_settings_def)
    obtain rs p2 where rest: "get_settings_calls envs p = (rs, p2)"
      by (cases "get_settings_calls envs p")
    with g Cons.prems(2) have r: "results = Inl e # rs" and p: "p' = p2" by simp_all
    from Cons.IH [OF Cons.prems(1) rest] show ?thesis
      unfolding r p by auto
  next
    case (Inr s)
    let ?p1 = "\<lparr>cached = Some s, constructed = constructed p + 1\<rparr>"
    have g: "get_settings env p = (Inr s, ?p1)"
      using Inr Cons.prems(1) by (simp add: get_settings_def)
    have rest: "get_settings_calls envs ?p1 = (replicate (length envs) (Inr s), ?p1)"
      by (rule get_settings_calls_cached) simp
    with g Cons.prems(2) have "results = Inr s # replicate (length envs) (Inr s)" and "p' = ?p1"
      by simp_all
    then show ?thesis by auto
  qed
qed

lemma length_format_papers: "length (format_papers i rs) = 7 * length rs"
  by (induction rs arbitrary: i) (simp_all add: format_paper_def)

lemma length_format_hits: "length (format_hits i rs) = 3 * length rs"
  by (induction rs arbitrary: i) (simp_all add: format_hit_def Let_def)

lemma search_arxiv_cases:
  "search_arxiv client query max_results =
     (case client query (min max_results 10) of
        Inl e \<Rightarrow> Inr (arxiv_error e)
      | Inr papers \<Rightarrow>
          if papers = [] then Inr (arxiv_no_papers query)
          else Inr (join [10] (arxiv_output query (map paper_entry papers))))"
  by (simp add: search_arxiv_def search_arxiv_body_def try_except_def bind_err_def Let_def
           split: sum.splits)

lemma search_web_cases:
  "search_web ddgs_text query max_results =
     (case ddgs_text query search_web_options (min max_results 10) of
        Inl e \<Rightarrow> Inr (web_error e)
      | Inr hits \<Rightarrow>
          if hits = [] then Inr (web_no_results query)
          else Inr (join [10] (web_output query hits)))"
  by (simp add: search_web_def search_web_body_def try_except_def bind_err_def Let_def
           split: sum.splits)

lemma dict_item_courses:
  "dict_item (search_queries topic) (py ''courses'')
     = Inr (topic @ py '' online course Coursera edX Udacity'')"
  by (simp add: dict_item_def search_queries_def)

lemma dict_get_unknown: "k \<notin> fst ` set d \<Longrightarrow> dict_get d k dflt = dflt"
  using map_of_eq_None_iff [of d k] by (simp add: dict_get_def)

lemma resource_query_unknown:
  assumes "resource_type \<notin> {py ''courses'', py ''tutorials'', py ''books'', py ''videos''}"
  shows "resource_query topic resource_type
           = Inr (topic @ py '' online course Coursera edX Udacity'')"
proof -
  have "resource_type \<notin> fst ` set (search_queries topic)"
    using assms by (simp add: search_queries_def)
  then show ?thesis
    by (simp add: resource_query_def dict_item_courses bind_err_def dict_get_unknown)
qed

lemma focus_instruction_unknown:
  assumes "lower focus_area \<notin> {py ''main findings'', py ''methodology'', py ''results'',
                                 py ''introduction'', py ''full summary''}"
  shows "focus_instruction lower focus_area
           = Inr (py ''Focus on the main findings, results, and conclusions.'')"
proof -
  have "lower focus_area \<notin> fst ` set focus_prompts"
    using assms by (simp add: focus_prompts_def)
  moreover have "dict_item focus_prompts (py ''main findings'')
                 = Inr (py ''Focus on the main findings, results, and conclusions.'')"
    by (simp add: dict_item_def focus_prompts_def)
  ultimately show ?thesis
    by (simp add: focus_instruction_def bind_err_def dict_get_unknown)
qed

lemma extract_texts_length: "extract_texts ps = Inr texts \<Longrightarrow> length texts = length ps"
proof (induction ps arbitrary: texts)
  case Nil
  then show ?case by simp
next
  case (Cons page rest)
  then show ?case
    by (auto simp: bind_err_def split: sum.splits)
qed

lemma extract_text_content_take: "extract_text_content pages = extract_texts (take 10 pages)"
  by (simp add: extract_text_content_def Let_def min_def)

lemma extract_texts_replicate: "extract_texts (replicate n (Inr t)) = Inr (replicate n t)"
  by (induction n) (simp_all add: bind_err_def)

lemma focus_instruction_eq:
  "focus_instruction lower focus_area =
     Inr (dict_get focus_prompts (lower focus_area)
            (py ''Focus on the main findings, results, and conclusions.''))"
  by (simp add: focus_instruction_def bind_err_def dict_item_def focus_prompts_def dict_get_def)

lemma summarize_paper_downloaded:
  assumes "requests_get pdf_url = Inr resp" and "status_error resp = None"
    and "pdf_pages (content_bytes resp) = Inr pages"
    and "extract_texts (take 10 pages) = Inr texts"
    and "focus_instruction lower focus_area = Inr instruction"
  shows "summarize_paper settings lower requests_get pdf_pages llm_invoke pdf_url focus_area =
     (case llm_invoke settings (build_prompt instruction (limit_text (join [10] texts))) of
        Inl e \<Rightarrow> Inr (summarize_error e)
      | Inr summary \<Rightarrow>
          Inr ([128196] @ py '' **Paper Summary** ('' @ focus_area @ py ''):'' @ [10, 10]
               @ summary))"
  using assms
  by (simp add: summarize_paper_def summarize_paper_body_def summarize_prompt_def bind_err_def
        try_except_def raise_for_status_def extract_text_content_take
      split: sum.splits)

lemma find_learning_resources_cases:
  "find_learning_resources ddgs_text topic resource_type =
     (case ddgs_text (dict_get (search_queries topic) resource_type
                        (topic @ py '' online course Coursera edX Udacity'')) [] 8 of
        Inl e \<Rightarrow> Inr (resources_error e)
      | Inr results \<Rightarrow>
          if results = [] then Inr (resources_none topic resource_type)
          else Inr (join [10] (resources_output topic resource_type (rank_results results))))"
  by (simp add: find_learning_resources_def find_learning_resources_body_def resource_query_def
        dict_item_courses bind_err_def try_except_def
      split: sum.splits)

lemma length_limit_text: "length (limit_text t) \<le> 30000 + length truncation_notice"
  by (simp add: limit_text_def)





section \<open>The claims about the tools and the settings\<close>

text \<open>
  Claim C4, as stated, fails: the model is not bound to all four adapters. The list
  \<open>tools\<close> of \<open>graph.py\<close> holds \<open>search_arxiv\<close> and \<open>search_web\<close> only.
\<close>

theorem bound_tools_all_four_counterexample:
  "set (bound_tools (llm_with_tools example_settings))
     \<noteq> {Search_arxiv, Search_web, Find_learning_resources, Summarize_paper}"
  by (auto simp: llm_with_tools_def bind_tools_def tools_def)

text \<open>
  Claim C4, amended. The reasoning step is configured, by \<open>bind_tools\<close> at module
  level, with exactly the two adapters \<open>search_arxiv\<close> and \<open>search_web\<close>, and the
  tool node is built from the same list. \<open>find_learning_resources\<close> and
  \<open>summarize_paper\<close> are defined as tools but are not bound.
\<close>

theorem bound_tools_two:
  "bound_tools (llm_with_tools settings) = [Search_arxiv, Search_web] \<and>
   tool_node_tools = [Search_arxiv, Search_web] \<and>
   Find_learning_resources \<notin> set (bound_tools (llm_with_tools settings)) \<and>
   Summarize_paper \<notin> set (bound_tools (llm_with_tools settings))"
  by (simp add: llm_with_tools_def bind_tools_def tools_def tool_node_tools_def)

text \<open>
  Claim C6. Each of the four tool adapters returns a text for every input and every
  behaviour of the service behind it: whatever its body raises is caught and turned into
  a text. In particular, when the download raises a request exception (an unreachable
  URL), \<open>summarize_paper\<close> returns the text that says so.
\<close>

theorem tool_adapters_total:
  "(\<exists>text. search_arxiv client query max_results = Inr text) \<and>
   (\<exists>text. search_web ddgs_text query max_results = Inr text) \<and>
   (\<exists>text. find_learning_resources ddgs_text topic resource_type = Inr text) \<and>
   (\<exists>text. summarize_paper settings lower requests_get pdf_pages llm_invoke pdf_url focus_area
              = Inr text) \<and>
   (requests_get pdf_url = Inl (Raised RequestException msg) \<longrightarrow>
      summarize_paper settings lower requests_get pdf_pages llm_invoke pdf_url focus_area
        = Inr ([10060] @ py '' Error downloading PDF: '' @ msg
               @ py ''. Please check if the URL is accessible.''))"
proof -
  have "summarize_paper settings lower requests_get pdf_pages llm_invoke pdf_url focus_area
        = Inr ([10060] @ py '' Error downloading PDF: '' @ msg
               @ py ''. Please check if the URL is accessible.'')"
    if "requests_get pdf_url = Inl (Raised RequestException msg)"
    using that
    by (simp add: summarize_paper_def summarize_paper_body_def summarize_prompt_def bind_err_def
          try_except_def summarize_error_def)
  then show ?thesis
    unfolding search_arxiv_def search_web_def find_learning_resources_def summarize_paper_def
    by (intro conjI try_except_total) simp
qed

theorem tool_adapters_total_witness:
  "unreachable (py ''http://localhost:1/paper.pdf'')
     = Inl (Raised RequestException (py ''Connection refused'')) \<and>
   summarize_paper example_settings ascii_lower unreachable twelve_pages (\<lambda>s p. Inr p)
       (py ''http://localhost:1/paper.pdf'') (py ''results'')
     = Inr ([10060] @ py '' Error downloading PDF: Connection refused. Please check if the URL is accessible.'')"
proof -
  have u: "unreachable (py ''http://localhost:1/paper.pdf'')
             = Inl (Raised RequestException (py ''Connection refused''))"
    by (simp add: unreachable_def)
  show ?thesis
    using tool_adapters_total [of obliging_arxiv "[]" 5 obliging_ddgs "[]" "py ''podcasts''"
        example_settings ascii_lower unreachable twelve_pages "\<lambda>s p. Inr p"
        "py ''http://localhost:1/paper.pdf''" "py ''results''" "py ''Connection refused''"] u
    by (simp add: py_def)
qed

text \<open>
  When the service returns no more results than it is asked for, the text returned is
  an error text, the text for no results, or the header line followed by at most 10
  formatted entries.
\<close>

lemma entries_bounded_by_service:
  assumes "\<And>papers. client query (min max_results 10) = Inr papers
             \<Longrightarrow> int (length papers) \<le> min max_results 10"
    and "\<And>hits. ddgs_text query search_web_options (min max_results 10) = Inr hits
             \<Longrightarrow> int (length hits) \<le> min max_results 10"
  shows "search_arxiv client query max_results = search_arxiv client query (min max_results 10) \<and>
         ((\<exists>e. search_arxiv client query max_results = Inr (arxiv_error e)) \<or>
          search_arxiv client query max_results = Inr (arxiv_no_papers query) \<or>
          (\<exists>results. length results \<le> 10 \<and>
             search_arxiv client query max_results = Inr (join [10] (arxiv_output query results)) \<and>
             length (arxiv_output query results) = 1 + 7 * length results)) \<and>
         search_web ddgs_text query max_results = search_web ddgs_text query (min max_results 10) \<and>
         ((\<exists>e. search_web ddgs_text query max_results = Inr (web_error e)) \<or>
          search_web ddgs_text query max_results = Inr (web_no_results query) \<or>
          (\<exists>results. length results \<le> 10 \<and>
             search_web ddgs_text query max_results = Inr (join [10] (web_output query results)) \<and>
             length (web_output query results) = 1 + 3 * length results))"
proof -
  have a1: "search_arxiv client query max_results = search_arxiv client query (min max_results 10)"
    by (simp add: search_arxiv_cases)
  have w1: "search_web ddgs_text query max_results = search_web ddgs_text query (min max_results 10)"
    by (simp add: search_web_cases)
  have a2: "(\<exists>e. search_arxiv client query max_results = Inr (arxiv_error e)) \<or>
          search_arxiv client query max_results = Inr (arxiv_no_papers query) \<or>
          (\<exists>results. length results \<le> 10 \<and>
             search_arxiv client query max_results = Inr (join [10] (arxiv_output query results)) \<and>
             length (arxiv_output query results) = 1 + 7 * length results)"
  proof (cases "client query (min max_results 10)")
    case (Inl e)
    then show ?thesis by (auto simp: search_arxiv_cases)
  next
    case (Inr papers)
    from assms(1) [OF Inr] have "length (map paper_entry papers) \<le> 10" by simp
    moreover have "length (arxiv_output query (map paper_entry papers))
                   = 1 + 7 * length (map paper_entry papers)"
      by (simp add: arxiv_output_def length_format_papers)
    ultimately have "papers \<noteq> [] \<Longrightarrow> \<exists>results. length results \<le> 10 \<and>
             search_arxiv client query max_results = Inr (join [10] (arxiv_output query results)) \<and>
             length (arxiv_output query results) = 1 + 7 * length results"
      using Inr by (intro exI [of _ "map paper_entry papers"]) (simp add: search_arxiv_cases)
    moreover have "papers = [] \<Longrightarrow>
        search_arxiv client query max_results = Inr (arxiv_no_papers query)"
      using Inr by (simp add: search_arxiv_cases)
    ultimately show ?thesis by blast
  qed
  have w2: "(\<exists>e. search_web ddgs_text query max_results = Inr (web_error e)) \<or>
          search_web ddgs_text query max_results = Inr (web_no_results query) \<or>
          (\<exists>results. length results \<le> 10 \<and>
             search_web ddgs_text query max_results = Inr (join [10] (web_output query results)) \<and>
             length (web_output query results) = 1 + 3 * length results)"
  proof (cases "ddgs_text query search_web_options (min max_results 10)")
    case (Inl e)
    then show ?thesis by (auto simp: search_web_cases)
  next
    case (Inr hits)
    from assms(2) [OF Inr] have "length hits \<le> 10" by simp
    moreover have "length (web_output query hits) = 1 + 3 * length hits"
      by (simp add: web_output_def length_format_hits)
    ultimately have "hits \<noteq> [] \<Longrightarrow> \<exists>results. length results \<le> 10 \<and>
             search_web ddgs_text query max_results = Inr (join [10] (web_output query results)) \<and>
             length (web_output query results) = 1 + 3 * length results"
      using Inr by (intro exI [of _ hits]) (simp add: search_web_cases)
    moreover have "hits = [] \<Longrightarrow>
        search_web ddgs_text query max_results = Inr (web_no_results query)"
      using Inr by (simp add: search_web_cases)
    ultimately show ?thesis by blast
  qed
  show ?thesis using a1 a2 w1 w2 by blast
qed




text \<open>
  Claim C8. Over any sequence of calls of \<open>get_settings\<close> in a process, whatever the
  environment is at each call, \<open>Settings()\<close> returns an object at most once, all calls
  that return a value return that same object, and once the object is cached a call
  returns it and leaves the cache as it is.
\<close>

theorem get_settings_once:
  assumes "get_settings_calls envs process_start = (results, p)"
  shows "constructed p \<le> 1 \<and>
         (\<forall>a b. Inr a \<in> set results \<longrightarrow> Inr b \<in> set results \<longrightarrow> a = b) \<and>
         (\<forall>s env. cached p = Some s \<longrightarrow> get_settings env p = (Inr s, p))"
proof -
  have "cached process_start = None" by (simp add: process_start_def)
  from get_settings_calls_fresh [OF this assms]
  consider (none) "p = process_start" "\<forall>r \<in> set results. \<exists>e. r = Inl e"
    | (some) s where "cached p = Some s" "constructed p = constructed process_start + 1"
        "\<forall>r \<in> set results. (\<exists>e. r = Inl e) \<or> r = Inr s"
    by blast
  then show ?thesis
  proof cases
    case none
    then show ?thesis by (auto simp: process_start_def)
  next
    case some
    have "a = s" if "Inr a \<in> set results" for a
      using some(3) that by fastforce
    then show ?thesis
      using some(1,2) by (auto simp: process_start_def get_settings_cached)
  qed
qed

theorem get_settings_once_witness:
  "get_settings_calls
     [no_credentials_env, example_env, example_env\<lparr>env_max_iterations := Value 5\<rparr>]
     process_start
   = ([Inl (Raised ValidationError (py ''validation error for Settings'')),
       Inr example_settings, Inr example_settings],
      \<lparr>cached = Some example_settings, constructed = 1\<rparr>) \<and>
   constructed \<lparr>cached = Some example_settings, constructed = 1\<rparr> \<le> 1 \<and>
   get_settings no_credentials_env \<lparr>cached = Some example_settings, constructed = 1\<rparr>
     = (Inr example_settings, \<lparr>cached = Some example_settings, constructed = 1\<rparr>)"
proof -
  have calls: "get_settings_calls
     [no_credentials_env, example_env, example_env\<lparr>env_max_iterations := Value 5\<rparr>]
     process_start
   = ([Inl (Raised ValidationError (py ''validation error for Settings'')),
       Inr example_settings, Inr example_settings],
      \<lparr>cached = Some example_settings, constructed = 1\<rparr>)"
    by (simp add: get_settings_def process_start_def Settings_init_def no_credentials_env_def
          example_env_def example_settings_def bind_err_def)
  show ?thesis
    using get_settings_once [OF calls] calls by simp
qed

text \<open>
  Claim C9. For a \<open>resource_type\<close> that is none of the four known ones,
  \<open>find_learning_resources\<close> runs the query for \<open>courses\<close>: what it returns is
  computed from the answer of the service to that query, asked for 8 results. For a
  \<open>focus_area\<close> whose lower case form is none of the five known ones,
  \<open>summarize_paper\<close> uses the instruction for \<open>main findings\<close>: once the PDF is
  downloaded and its pages are extracted, the model is invoked with the prompt built
  from that instruction, and the text returned is made of its answer. Neither raises
  for the unknown value.
\<close>

theorem unknown_option_runs_default:
  "(resource_type \<notin> {py ''courses'', py ''tutorials'', py ''books'', py ''videos''} \<longrightarrow>
      resource_query topic resource_type
        = Inr (topic @ py '' online course Coursera edX Udacity'') \<and>
      resource_query topic resource_type = resource_query topic (py ''courses'') \<and>
      find_learning_resources ddgs_text topic resource_type =
        (case ddgs_text (topic @ py '' online course Coursera edX Udacity'') [] 8 of
           Inl e \<Rightarrow> Inr (resources_error e)
         | Inr results \<Rightarrow>
             if results = [] then Inr (resources_none topic resource_type)
             else Inr (join [10] (resources_output topic resource_type (rank_results results))))) \<and>
   (lower focus_area \<notin> {py ''main findings'', py ''methodology'', py ''results'',
                          py ''introduction'', py ''full summary''} \<longrightarrow>
      focus_instruction lower focus_area
        = Inr (py ''Focus on the main findings, results, and conclusions.'') \<and>
      (requests_get pdf_url = Inr resp \<longrightarrow> status_error resp = None \<longrightarrow>
       pdf_pages (content_bytes resp) = Inr pages \<longrightarrow>
       extract_texts (take 10 pages) = Inr texts \<longrightarrow>
         summarize_paper settings lower requests_get pdf_pages llm_invoke pdf_url focus_area =
           (case llm_invoke settings
                   (build_prompt (py ''Focus on the main findings, results, and conclusions.'')
                      (limit_text (join [10] texts))) of
              Inl e \<Rightarrow> Inr (summarize_error e)
            | Inr summary \<Rightarrow>
                Inr ([128196] @ py '' **Paper Summary** ('' @ focus_area @ py ''):'' @ [10, 10]
                     @ summary))))"
proof -
  have r: "resource_query topic resource_type
        = Inr (topic @ py '' online course Coursera edX Udacity'') \<and>
      resource_query topic resource_type = resource_query topic (py ''courses'') \<and>
      find_learning_resources ddgs_text topic resource_type =
        (case ddgs_text (topic @ py '' online course Coursera edX Udacity'') [] 8 of
           Inl e \<Rightarrow> Inr (resources_error e)
         | Inr results \<Rightarrow>
             if results = [] then Inr (resources_none topic resource_type)
             else Inr (join [10] (resources_output topic resource_type (rank_results results))))"
    if u: "resource_type \<notin> {py ''courses'', py ''tutorials'', py ''books'', py ''videos''}"
  proof -
    have c: "resource_query topic (py ''courses'')
               = Inr (topic @ py '' online course Coursera edX Udacity'')"
      by (simp add: resource_query_def bind_err_def dict_item_def dict_get_def
            search_queries_def)
    have "resource_type \<notin> fst ` set (search_queries topic)"
      using u by (simp add: search_queries_def)
    then have d: "dict_get (search_queries topic) resource_type
                    (topic @ py '' online course Coursera edX Udacity'')
                  = topic @ py '' online course Coursera edX Udacity''"
      by (rule dict_get_unknown)
    show ?thesis
      using find_learning_resources_cases [of ddgs_text topic resource_type]
      by (simp add: resource_query_unknown [OF u] c d)
  qed
  have f: "focus_instruction lower focus_area
        = Inr (py ''Focus on the main findings, results, and conclusions.'')"
    if u: "lower focus_area \<notin> {py ''main findings'', py ''methodology'', py ''results'',
                          py ''introduction'', py ''full summary''}"
    using focus_instruction_unknown [of lower focus_area, OF u] .
  show ?thesis
    using r f summarize_paper_downloaded [of requests_get pdf_url resp pdf_pages pages texts
        lower focus_area "py ''Focus on the main findings, results, and conclusions.''"
        settings llm_invoke]
    by blast
qed

theorem unknown_option_runs_default_witness:
  "py ''podcasts'' \<notin> {py ''courses'', py ''tutorials'', py ''books'', py ''videos''} \<and>
   resource_query (py ''LangGraph'') (py ''podcasts'')
     = Inr (py ''LangGraph online course Coursera edX Udacity'') \<and>
   obliging_ddgs (py ''LangGraph online course Coursera edX Udacity'') [] 8
     = Inr (replicate 8 example_hit) \<and>
   find_learning_resources obliging_ddgs (py ''LangGraph'') (py ''podcasts'')
     = Inr (join [10] (resources_output (py ''LangGraph'') (py ''podcasts'')
                         (rank_results (replicate 8 example_hit)))) \<and>
   ascii_lower (py ''Conclusions'') \<notin> {py ''main findings'', py ''methodology'', py ''results'',
                                        py ''introduction'', py ''full summary''} \<and>
   focus_instruction ascii_lower (py ''Conclusions'')
     = Inr (py ''Focus on the main findings, results, and conclusions.'') \<and>
   download_ok (py ''https://arxiv.org/pdf/2103.00020'')
     = Inr \<lparr>status_error = None, content_bytes = [37, 80, 68, 70]\<rparr> \<and>
   twelve_pages [37, 80, 68, 70] = Inr (replicate 12 (Inr (py ''One line.''))) \<and>
   extract_texts (take 10 (replicate 12 (Inr (py ''One line.''))))
     = Inr (replicate 10 (py ''One line.'')) \<and>
   summarize_paper example_settings ascii_lower download_ok twelve_pages echo_prompt
       (py ''https://arxiv.org/pdf/2103.00020'') (py ''Conclusions'')
     = Inr ([128196] @ py '' **Paper Summary** ('' @ py ''Conclusions'' @ py ''):'' @ [10, 10]
            @ build_prompt (py ''Focus on the main findings, results, and conclusions.'')
                (limit_text (join [10] (replicate 10 (py ''One line.'')))))"
proof -
  have h1: "py ''podcasts'' \<notin> {py ''courses'', py ''tutorials'', py ''books'', py ''videos''}"
    by (simp add: py_def)
  have h2: "ascii_lower (py ''Conclusions'')
              \<notin> {py ''main findings'', py ''methodology'', py ''results'',
                  py ''introduction'', py ''full summary''}"
    by (simp add: py_def ascii_lower_def)
  have app: "py ''LangGraph'' @ py '' online course Coursera edX Udacity''
             = py ''LangGraph online course Coursera edX Udacity''"
    by (simp add: py_def)
  have d: "obliging_ddgs (py ''LangGraph online course Coursera edX Udacity'') [] 8
             = Inr (replicate 8 example_hit)"
    by (simp add: obliging_ddgs_def)
  have ne: "replicate 8 example_hit \<noteq> []" by simp
  have g: "download_ok (py ''https://arxiv.org/pdf/2103.00020'')
     = Inr \<lparr>status_error = None, content_bytes = [37, 80, 68, 70]\<rparr>"
    by (simp add: download_ok_def)
  have s: "status_error \<lparr>status_error = None, content_bytes = [37, 80, 68, 70]\<rparr> = None"
    by simp
  have p: "twelve_pages (content_bytes \<lparr>status_error = None, content_bytes = [37, 80, 68, 70]\<rparr>)
             = Inr (replicate 12 (Inr (py ''One line.'')))"
    by (simp add: twelve_pages_def)
  have e: "extract_texts (take 10 (replicate 12 (Inr (py ''One line.''))))
     = Inr (replicate 10 (py ''One line.''))"
    by (simp add: extract_texts_replicate)
  have echo: "echo_prompt example_settings x = Inr x" for x
    by (simp add: echo_prompt_def)
  show ?thesis
    using unknown_option_runs_default [of "py ''podcasts''" "py ''LangGraph''" obliging_ddgs
        ascii_lower "py ''Conclusions''" download_ok "py ''https://arxiv.org/pdf/2103.00020''"
        "\<lparr>status_error = None, content_bytes = [37, 80, 68, 70]\<rparr>" twelve_pages
        "replicate 12 (Inr (py ''One line.''))" "replicate 10 (py ''One line.'')"
        example_settings echo_prompt]
      h1 h2 d ne g s p e
    by (simp only: app echo sum.case if_False HttpResponse.simps simp_thms)
qed

text \<open>
  Claim C10. \<open>summarize_paper\<close> extracts text from the first 10 pages at most; a text
  longer than 30000 characters is cut to its first 30000 characters followed by the
  truncation notice, a shorter one is left as it is. Once the PDF is downloaded and the
  pages are extracted, the one call of the model receives the prompt built from the text
  so limited, which is never longer than 30000 characters plus the notice, and the text
  \<open>summarize_paper\<close> returns is made of the answer to that call.
\<close>

theorem summarizer_input_bounded:
  "extract_text_content pages = extract_texts (take 10 pages) \<and>
   (\<forall>texts. extract_text_content pages = Inr texts \<longrightarrow> length texts \<le> 10) \<and>
   (length full_text > 30000 \<longrightarrow>
      limit_text full_text = take 30000 full_text @ truncation_notice \<and>
      length (take 30000 full_text) = 30000) \<and>
   (length full_text \<le> 30000 \<longrightarrow> limit_text full_text = full_text) \<and>
   (summarize_prompt lower requests_get pdf_pages pdf_url focus_area = Inr prompt \<longrightarrow>
      (\<exists>r ps texts instruction.
         requests_get pdf_url = Inr r \<and>
         pdf_pages (content_bytes r) = Inr ps \<and>
         extract_texts (take 10 ps) = Inr texts \<and> length texts \<le> 10 \<and>
         focus_instruction lower focus_area = Inr instruction \<and>
         prompt = build_prompt instruction (limit_text (join [10] texts)))) \<and>
   (requests_get pdf_url = Inr resp \<longrightarrow> status_error resp = None \<longrightarrow>
    pdf_pages (content_bytes resp) = Inr doc \<longrightarrow>
    extract_texts (take 10 doc) = Inr page_texts \<longrightarrow>
      length page_texts \<le> 10 \<and>
      length (limit_text (join [10] page_texts)) \<le> 30000 + length truncation_notice \<and>
      summarize_paper settings lower requests_get pdf_pages llm_invoke pdf_url focus_area =
        (case llm_invoke settings
                (build_prompt
                   (dict_get focus_prompts (lower focus_area)
                      (py ''Focus on the main findings, results, and conclusions.''))
                   (limit_text (join [10] page_texts))) of
           Inl e \<Rightarrow> Inr (summarize_error e)
         | Inr summary \<Rightarrow>
             Inr ([128196] @ py '' **Paper Summary** ('' @ focus_area @ py ''):'' @ [10, 10]
                  @ summary)))"
proof -
  have len: "length texts \<le> 10" if "extract_texts (take 10 ps) = Inr texts" for ps texts
    using extract_texts_length [OF that] by simp
  have p: "\<exists>r ps texts instruction.
         requests_get pdf_url = Inr r \<and>
         pdf_pages (content_bytes r) = Inr ps \<and>
         extract_texts (take 10 ps) = Inr texts \<and> length texts \<le> 10 \<and>
         focus_instruction lower focus_area = Inr instruction \<and>
         prompt = build_prompt instruction (limit_text (join [10] texts))"
    if "summarize_prompt lower requests_get pdf_pages pdf_url focus_area = Inr prompt"
    using that len
    by (auto simp: summarize_prompt_def bind_err_def Let_def extract_text_content_take
             split: sum.splits)
  have first: "extract_text_content pages = extract_texts (take 10 pages) \<and>
   (\<forall>texts. extract_text_content pages = Inr texts \<longrightarrow> length texts \<le> 10) \<and>
   (length full_text > 30000 \<longrightarrow>
      limit_text full_text = take 30000 full_text @ truncation_notice \<and>
      length (take 30000 full_text) = 30000) \<and>
   (length full_text \<le> 30000 \<longrightarrow> limit_text full_text = full_text)"
    using len by (auto simp: extract_text_content_take limit_text_def)
  have link: "length page_texts \<le> 10 \<and>
      length (limit_text (join [10] page_texts)) \<le> 30000 + length truncation_notice \<and>
      summarize_paper settings lower requests_get pdf_pages llm_invoke pdf_url focus_area =
        (case llm_invoke settings
                (build_prompt
                   (dict_get focus_prompts (lower focus_area)
                      (py ''Focus on the main findings, results, and conclusions.''))
                   (limit_text (join [10] page_texts))) of
           Inl e \<Rightarrow> Inr (summarize_error e)
         | Inr summary \<Rightarrow>
             Inr ([128196] @ py '' **Paper Summary** ('' @ focus_area @ py ''):'' @ [10, 10]
                  @ summary))"
    if "requests_get pdf_url = Inr resp" "status_error resp = None"
      "pdf_pages (content_bytes resp) = Inr doc" "extract_texts (take 10 doc) = Inr page_texts"
    using summarize_paper_downloaded [of requests_get pdf_url resp pdf_pages doc page_texts
        lower focus_area
        "dict_get focus_prompts (lower focus_area)
           (py ''Focus on the main findings, results, and conclusions.'')"
        settings llm_invoke, OF that focus_instruction_eq]
      len [OF that(4)]
      length_limit_text [of "join [10] page_texts"]
    by simp
  show ?thesis
    using first p link by blast
qed

theorem summarizer_input_bounded_witness:
  "extract_text_content (replicate 12 (Inr (py ''One line.'')))
     = Inr (replicate 10 (py ''One line.'')) \<and>
   length (replicate 10 (py ''One line.'')) \<le> 10 \<and>
   length (replicate 40000 (120::nat)) > 30000 \<and>
   limit_text (replicate 40000 120) = replicate 30000 120 @ truncation_notice \<and>
   length (py ''One line.'') \<le> 30000 \<and>
   limit_text (py ''One line.'') = py ''One line.'' \<and>
   summarize_prompt ascii_lower download_ok twelve_pages (py ''https://arxiv.org/pdf/2103.00020'')
       (py ''Methodology'')
     = Inr (build_prompt
              (py ''Focus on the research methodology, experimental setup, and techniques used.'')
              (limit_text (join [10] (replicate 10 (py ''One line.''))))) \<and>
   download_ok (py ''https://arxiv.org/pdf/2103.00020'')
     = Inr \<lparr>status_error = None, content_bytes = [37, 80, 68, 70]\<rparr> \<and>
   long_page [37, 80, 68, 70] = Inr [Inr (replicate 40000 120), Inr (py ''Second page.'')] \<and>
   extract_texts (take 10 [Inr (replicate 40000 120), Inr (py ''Second page.'')])
     = Inr [replicate 40000 120, py ''Second page.''] \<and>
   summarize_paper example_settings ascii_lower download_ok long_page echo_prompt
       (py ''https://arxiv.org/pdf/2103.00020'') (py ''Methodology'')
     = Inr ([128196] @ py '' **Paper Summary** ('' @ py ''Methodology'' @ py ''):'' @ [10, 10]
            @ build_prompt
                (py ''Focus on the research methodology, experimental setup, and techniques used.'')
                (replicate 30000 120 @ truncation_notice))"
proof -
  have e: "extract_text_content (replicate 12 (Inr (py ''One line.'')))
             = Inr (replicate 10 (py ''One line.''))"
    by (simp add: extract_text_content_def extract_texts_replicate)
  have f: "focus_instruction ascii_lower (py ''Methodology'')
     = Inr (py ''Focus on the research methodology, experimental setup, and techniques used.'')"
    by (simp add: focus_instruction_def bind_err_def dict_item_def dict_get_def focus_prompts_def
          ascii_lower_def py_def)
  have dg: "dict_get focus_prompts (ascii_lower (py ''Methodology''))
              (py ''Focus on the main findings, results, and conclusions.'')
     = py ''Focus on the research methodology, experimental setup, and techniques used.''"
    using f by (simp add: focus_instruction_eq)
  have s: "summarize_prompt ascii_lower download_ok twelve_pages
       (py ''https://arxiv.org/pdf/2103.00020'') (py ''Methodology'')
     = Inr (build_prompt
              (py ''Focus on the research methodology, experimental setup, and techniques used.'')
              (limit_text (join [10] (replicate 10 (py ''One line.'')))))"
    by (simp add: summarize_prompt_def bind_err_def download_ok_def twelve_pages_def
          raise_for_status_def e f Let_def)
  have l1: "length (replicate 40000 (120::nat)) > 30000" by simp
  have l2: "length (py ''One line.'') \<le> 30000" by (simp add: py_def)
  have g: "download_ok (py ''https://arxiv.org/pdf/2103.00020'')
     = Inr \<lparr>status_error = None, content_bytes = [37, 80, 68, 70]\<rparr>"
    by (simp add: download_ok_def)
  have st: "status_error \<lparr>status_error = None, content_bytes = [37, 80, 68, 70]\<rparr> = None"
    by simp
  have lp: "long_page (content_bytes \<lparr>status_error = None, content_bytes = [37, 80, 68, 70]\<rparr>)
     = Inr [Inr (replicate 40000 120), Inr (py ''Second page.'')]"
    by (simp add: long_page_def)
  have ex: "extract_texts (take 10 [Inr (replicate 40000 120), Inr (py ''Second page.'')])
     = Inr [replicate 40000 120, py ''Second page.'']"
    by (simp add: bind_err_def)
  have lim: "limit_text (join [10] [replicate 40000 120, py ''Second page.''])
               = replicate 30000 120 @ truncation_notice"
    by (simp add: limit_text_def)
  have echo: "echo_prompt example_settings x = Inr x" for x
    by (simp add: echo_prompt_def)
  have run: "summarize_paper example_settings ascii_lower download_ok long_page echo_prompt
       (py ''https://arxiv.org/pdf/2103.00020'') (py ''Methodology'')
     = Inr ([128196] @ py '' **Paper Summary** ('' @ py ''Methodology'' @ py ''):'' @ [10, 10]
            @ build_prompt
                (py ''Focus on the research methodology, experimental setup, and techniques used.'')
                (replicate 30000 120 @ truncation_notice))"
    using summarizer_input_bounded [of "[]" "[]" ascii_lower download_ok long_page
        "py ''https://arxiv.org/pdf/2103.00020''" "py ''Methodology''" "[]"
        "\<lparr>status_error = None, content_bytes = [37, 80, 68, 70]\<rparr>"
        "[Inr (replicate 40000 120), Inr (py ''Second page.'')]"
        "[replicate 40000 120, py ''Second page.'']" example_settings echo_prompt]
      g st lp ex
    by (simp only: lim dg echo sum.case simp_thms)
  show ?thesis
    using summarizer_input_bounded [of "replicate 12 (Inr (py ''One line.''))"
        "replicate 40000 120" ascii_lower download_ok twelve_pages
        "py ''https://arxiv.org/pdf/2103.00020''" "py ''Methodology''"
        "build_prompt
              (py ''Focus on the research methodology, experimental setup, and techniques used.'')
              (limit_text (join [10] (replicate 10 (py ''One line.''))))"]
      summarizer_input_bounded [of "[]" "py ''One line.''" ascii_lower download_ok twelve_pages
        "py ''https://arxiv.org/pdf/2103.00020''" "py ''Methodology''" "[]"]
      e s l1 l2 g lp ex run
    by simp
qed

end
